theory Spec2Isabelle
  imports Complex_Main
begin

section \<open>Stock ledger (client/pages/Stock.tsx)\<close>

text \<open>
  The page keeps no ledger of its own: every handler reads and writes three collections
  of the document store, \<open>stocks\<close>, \<open>stock_transfers\<close> and \<open>stock_additions\<close>.
  A collection is modelled as the list of its documents in the order in which a query
  returns them; document ids are unique within a collection (\<open>distinct (map stock_id ...)\<close>
  is the form this takes in the theorems below).

  The quantities in the store are modelled as \<open>int\<close>: the ledger of the documents
  whose quantity is a number that \<open>parseInt\<close> has read, and sums and differences of
  such. The quantity field of a form is its text, and \<open>parseInt\<close> may read no number
  from a text (\<open>NaN\<close>). A handler that goes on to write \<open>NaN\<close> as a quantity leaves
  this ledger; the write is then the handler's result (\<open>StoredNaN\<close> below), and
  what later calls do with such a document is not modelled.
\<close>

subsection \<open>Data (shared/types.ts)\<close>

type_synonym timestamp = nat

datatype status = Pending | Confirmed

record StockItem =
  stock_id :: string
  stock_secteurId :: string
  stock_item :: string
  stock_quantity :: int
  stock_unit :: string
  stock_lastUpdated :: string

record StockTransfer =
  tr_id :: string
  tr_fromSecteurId :: string
  tr_toSecteurId :: string
  tr_item :: string
  tr_quantity :: int
  tr_unit :: string
  tr_status :: status
  tr_createdAt :: "timestamp option"
  tr_confirmedAt :: "timestamp option"

record StockAddition =
  add_id :: string
  add_secteurId :: string
  add_item :: string
  add_quantity :: int
  add_unit :: string
  add_status :: status
  add_addedBy :: string
  add_createdAt :: "timestamp option"
  add_confirmedAt :: "timestamp option"

text \<open>Of the signed-in user the handlers read \<open>uid\<close> and the optional \<open>fermeId\<close>.\<close>

record User =
  user_uid :: string
  user_fermeId :: "string option"

text \<open>The two forms of the page (\<open>transferForm\<close>, \<open>addStockForm\<close>).\<close>

record TransferForm =
  tf_item :: string
  tf_quantity :: string
  tf_unit :: string
  tf_toSecteurId :: string
  tf_fromSecteurId :: string

record AddStockForm =
  af_item :: string
  af_quantity :: string
  af_unit :: string
  af_secteurId :: string

text \<open>The three collections.\<close>

record Store =
  stocks :: "StockItem list"
  stock_transfers :: "StockTransfer list"
  stock_additions :: "StockAddition list"

text \<open>
  What a handler takes from outside the page during one call: the id the store gives to a
  document created by \<open>addDoc\<close>, the client clock (\<open>new Date().toISOString()\<close>) and
  the store's clock (\<open>serverTimestamp()\<close>).
\<close>

record Env =
  newId :: string
  now :: string
  serverTime :: timestamp

text \<open>
  The handlers report a failure by a toast and return; the toasts are the error values.
  \<open>MissingFields\<close> is "Veuillez remplir tous les champs requis", \<open>SameSector\<close> is
  "Vous ne pouvez pas transferer vers le meme secteur", \<open>NonPositiveQuantity\<close> is
  "La quantite doit etre superieure a 0", \<open>InsufficientStock n u\<close> is "Stock insuffisant /
  Stock disponible: n u", and \<open>StoreError\<close> is the \<open>catch\<close> branch around the store
  calls. A result \<open>Inl e\<close> of a confirmation means that the handler stopped with
  \<open>e\<close> and wrote nothing; \<open>Inr db\<close> is the store after the handler's writes.
\<close>

datatype error =
    MissingFields
  | SameSector
  | NonPositiveQuantity
  | InsufficientStock int string
  | StoreError

text \<open>The first three are the input checks that the specification calls ValidationError.\<close>

fun isValidationError :: "error \<Rightarrow> bool" where
  "isValidationError MissingFields = True"
| "isValidationError SameSector = True"
| "isValidationError NonPositiveQuantity = True"
| "isValidationError (InsufficientStock n u) = False"
| "isValidationError StoreError = False"

text \<open>
  The result of a form handler. \<open>Refused e\<close>: the handler stopped with \<open>e\<close> and
  wrote nothing. \<open>Stored db\<close>: the store after the handler's write. \<open>StoredNaN w\<close>:
  the handler made the write \<open>w\<close>, whose quantity is \<open>NaN\<close>: a new pending
  addition (sector, item, unit), a new stock row (sector, item, unit), \<open>increment(NaN)\<close>
  on the stock row with the given id, or a new pending transfer (sender, receiver, item,
  unit).
\<close>

datatype nanWrite =
    AddAdditionNaN string string string
  | AddStockNaN string string string
  | IncrementNaN string
  | AddTransferNaN string string string string

datatype submission = Refused error | Stored Store | StoredNaN nanWrite

subsection \<open>parseInt\<close>

text \<open>
  \<open>parseInt(text)\<close> without a radix, as the language defines it: leading white space is
  skipped, a sign is read, the prefix \<open>0x\<close> or \<open>0X\<close> selects radix 16, and the
  longest run of digits of the radix that follows is the number; what comes after it is
  ignored. With no digit the result is \<open>NaN\<close>, here \<open>None\<close>. So \<open>'15'\<close> is 15,
  \<open>'1e3'\<close> is 1, \<open>'0.7'\<close> is 0, and \<open>'.5'\<close>, \<open>'-.5e1'\<close> and the empty text
  are \<open>NaN\<close>. White space is the ASCII white space (a number field holds ASCII text),
  and the value is exact (the program's is, up to \<open>2^53\<close>).
\<close>

definition isWhiteSpace :: "char \<Rightarrow> bool" where
  "isWhiteSpace c = (c \<in> set [CHR 0x09, CHR 0x0A, CHR 0x0B, CHR 0x0C, CHR 0x0D, CHR 0x20])"

primrec position :: "char \<Rightarrow> string \<Rightarrow> nat option" where
  "position c [] = None"
| "position c (x # xs) = (if c = x then Some 0 else map_option Suc (position c xs))"

definition digit :: "nat \<Rightarrow> char \<Rightarrow> nat option" where
  "digit R c =
     (case position c ''0123456789abcdef'' of
        Some d \<Rightarrow> if d < R then Some d else None
      | None \<Rightarrow> (case position c ''ABCDEF'' of
                   Some d \<Rightarrow> if d + 10 < R then Some (d + 10) else None
                 | None \<Rightarrow> None))"

definition parseInt :: "string \<Rightarrow> int option" where
  "parseInt inputString =
     (let S = dropWhile isWhiteSpace inputString;
          sign = (if S \<noteq> [] \<and> hd S = CHR ''-'' then - 1 else 1);
          S' = (if S \<noteq> [] \<and> (hd S = CHR ''+'' \<or> hd S = CHR ''-'') then tl S else S);
          stripPrefix = (take 2 S' = ''0x'' \<or> take 2 S' = ''0X'');
          R = (if stripPrefix then 16 else 10);
          S'' = (if stripPrefix then drop 2 S' else S');
          Z = takeWhile (\<lambda>c. digit R c \<noteq> None) S''
      in if Z = [] then None
         else Some (sign * int (foldl (\<lambda>n c. n * R + (case digit R c of Some d \<Rightarrow> d | None \<Rightarrow> 0))
                                  0 Z)))"

subsection \<open>Store primitives\<close>

text \<open>
  \<open>query(collection(db, 'stocks'), where('secteurId', '==', s), where('item', '==', i))\<close>
  followed by \<open>getDocs\<close>: the documents that satisfy both filters.
\<close>

definition stockQuery :: "string \<Rightarrow> string \<Rightarrow> StockItem list \<Rightarrow> StockItem list" where
  "stockQuery secteurId item docs =
     filter (\<lambda>s. stock_secteurId s = secteurId \<and> stock_item s = item) docs"

text \<open>
  \<open>updateDoc(doc(db, 'stocks', id), {quantity: increment(n), lastUpdated: t})\<close>: the
  document with that id gets \<open>n\<close> added to its quantity and a new \<open>lastUpdated\<close>; no
  other field and no other document is written.
\<close>

definition incrementStock :: "string \<Rightarrow> int \<Rightarrow> string \<Rightarrow> StockItem list \<Rightarrow> StockItem list" where
  "incrementStock docId n t docs =
     map (\<lambda>s. if stock_id s = docId
               then s\<lparr>stock_quantity := stock_quantity s + n, stock_lastUpdated := t\<rparr>
               else s) docs"

text \<open>
  The block "Add to farm's stock" / "Add to receiver's stock", written out three times in
  the page (\<open>handleAddStockSubmit\<close>, \<open>handleConfirmAddition\<close>, \<open>handleConfirmTransfer\<close>):
  query the sector's rows for the item; if the snapshot is empty, \<open>addDoc\<close> a new row,
  otherwise increment \<open>docs[0]\<close>. The position of a new document in later query results
  is the store's choice; the model puts it last.
\<close>

definition addToStock ::
  "Env \<Rightarrow> string \<Rightarrow> string \<Rightarrow> int \<Rightarrow> string \<Rightarrow> StockItem list \<Rightarrow> StockItem list" where
  "addToStock env secteurId item quantity unit docs =
     (case stockQuery secteurId item docs of
        [] \<Rightarrow> docs @ [\<lparr>stock_id = newId env, stock_secteurId = secteurId, stock_item = item,
                       stock_quantity = quantity, stock_unit = unit,
                       stock_lastUpdated = now env\<rparr>]
      | existingStockDoc # _ \<Rightarrow> incrementStock (stock_id existingStockDoc) quantity (now env) docs)"

subsection \<open>Handlers\<close>

text \<open>
  \<open>handleAddStockSubmit\<close>. A super admin creates a pending addition; a sector admin
  adds to the stock of \<open>user.fermeId\<close> directly. With \<open>user.fermeId\<close> undefined the
  \<open>where\<close> filter of the direct path throws, which the handler catches. The only test
  of the quantity is \<open>quantity <= 0\<close>, which is false for \<open>NaN\<close>: a text that is not
  empty and from which \<open>parseInt\<close> reads no number goes on to the writes.
\<close>

definition handleAddStockSubmit ::
  "bool \<Rightarrow> User \<Rightarrow> AddStockForm \<Rightarrow> Env \<Rightarrow> Store \<Rightarrow> submission" where
  "handleAddStockSubmit isSuperAdmin user addStockForm env db =
     (if af_item addStockForm = [] \<or> af_quantity addStockForm = []
         \<or> (\<not> isSuperAdmin \<and> af_secteurId addStockForm = [])
      then Refused MissingFields
      else
        (case parseInt (af_quantity addStockForm) of
           Some quantity \<Rightarrow>
             if quantity \<le> 0 then Refused NonPositiveQuantity
             else if isSuperAdmin then
               Stored (db\<lparr>stock_additions := stock_additions db @
                     [\<lparr>add_id = newId env, add_secteurId = af_secteurId addStockForm,
                       add_item = af_item addStockForm, add_quantity = quantity,
                       add_unit = af_unit addStockForm, add_status = Pending,
                       add_addedBy = user_uid user, add_createdAt = Some (serverTime env),
                       add_confirmedAt = None\<rparr>]\<rparr>)
             else
               (case user_fermeId user of
                  None \<Rightarrow> Refused StoreError
                | Some fermeId \<Rightarrow>
                    Stored (db\<lparr>stocks := addToStock env fermeId (af_item addStockForm) quantity
                                            (af_unit addStockForm) (stocks db)\<rparr>))
         | None \<Rightarrow>
             if isSuperAdmin then
               StoredNaN (AddAdditionNaN (af_secteurId addStockForm) (af_item addStockForm)
                            (af_unit addStockForm))
             else
               (case user_fermeId user of
                  None \<Rightarrow> Refused StoreError
                | Some fermeId \<Rightarrow>
                    (case stockQuery fermeId (af_item addStockForm) (stocks db) of
                       [] \<Rightarrow> StoredNaN (AddStockNaN fermeId (af_item addStockForm)
                                          (af_unit addStockForm))
                     | existingStockDoc # _ \<Rightarrow>
                         StoredNaN (IncrementNaN (stock_id existingStockDoc))))))"

text \<open>
  \<open>handleConfirmAddition\<close>. The first write is \<open>updateDoc\<close> on the addition's document,
  which throws when the store has no document with that id; nothing else can stop the
  handler. The addition's \<open>status\<close> is not read.
\<close>

definition handleConfirmAddition :: "Env \<Rightarrow> StockAddition \<Rightarrow> Store \<Rightarrow> error + Store" where
  "handleConfirmAddition env addition db =
     (if add_id addition \<notin> add_id ` set (stock_additions db) then Inl StoreError
      else
        let db1 = db\<lparr>stock_additions :=
                     map (\<lambda>a. if add_id a = add_id addition
                               then a\<lparr>add_status := Confirmed,
                                      add_confirmedAt := Some (serverTime env)\<rparr>
                               else a) (stock_additions db)\<rparr>
        in Inr (db1\<lparr>stocks := addToStock env (add_secteurId addition) (add_item addition)
                                 (add_quantity addition) (add_unit addition) (stocks db1)\<rparr>))"

text \<open>
  The page's list \<open>stocks\<close>: the snapshot of the query that the page subscribes to,
  sorted by \<open>lastUpdated\<close>, latest first (\<open>Array.sort\<close> is stable). A super admin's
  query is the whole collection or, with a sector selected in the filter, that sector's
  rows; a sector admin's query is the rows of \<open>user.fermeId || ''\<close>. \<open>getTime\<close> is
  \<open>new Date(text).getTime()\<close>, the runtime's reading of a date text.
\<close>

definition loadStocks ::
  "(string \<Rightarrow> int) \<Rightarrow> bool \<Rightarrow> string \<Rightarrow> User \<Rightarrow> StockItem list \<Rightarrow> StockItem list" where
  "loadStocks getTime isSuperAdmin selectedSecteur user docs =
     sort_key (\<lambda>s. - getTime (stock_lastUpdated s))
       (if isSuperAdmin then
          (if selectedSecteur = ''all'' then docs
           else filter (\<lambda>s. stock_secteurId s = selectedSecteur) docs)
        else filter (\<lambda>s. stock_secteurId s
                            = (case user_fermeId user of None \<Rightarrow> [] | Some fermeId \<Rightarrow> fermeId))
               docs)"

text \<open>
  \<open>handleTransferSubmit\<close>. \<open>stocksSnapshot\<close> is the page's list \<open>stocks\<close> at the
  time of the call, in which the handler looks up the sender's row with \<open>Array.find\<close>;
  the handler does not query the store. The sender is \<open>transferForm.fromSecteurId\<close> for
  a super admin and \<open>user.fermeId\<close>, which may be undefined, otherwise. For a quantity
  \<open>NaN\<close> both \<open>quantity <= 0\<close> and \<open>currentStock.quantity < quantity\<close> are
  false.
\<close>

definition senderSecteurId :: "bool \<Rightarrow> User \<Rightarrow> TransferForm \<Rightarrow> string option" where
  "senderSecteurId isSuperAdmin user transferForm =
     (if isSuperAdmin then Some (tf_fromSecteurId transferForm) else user_fermeId user)"

definition handleTransferSubmit ::
  "bool \<Rightarrow> User \<Rightarrow> TransferForm \<Rightarrow> StockItem list \<Rightarrow> Env \<Rightarrow> Store \<Rightarrow> submission" where
  "handleTransferSubmit isSuperAdmin user transferForm stocksSnapshot env db =
     (if tf_item transferForm = [] \<or> tf_quantity transferForm = []
         \<or> tf_toSecteurId transferForm = []
         \<or> (isSuperAdmin \<and> tf_fromSecteurId transferForm = [])
      then Refused MissingFields
      else
        let fromSecteurId = senderSecteurId isSuperAdmin user transferForm
        in if Some (tf_toSecteurId transferForm) = fromSecteurId then Refused SameSector
           else
             (case parseInt (tf_quantity transferForm) of
                Some quantity \<Rightarrow>
                  if quantity \<le> 0 then Refused NonPositiveQuantity
                  else
                    (case find (\<lambda>s. Some (stock_secteurId s) = fromSecteurId
                                     \<and> stock_item s = tf_item transferForm) stocksSnapshot of
                       None \<Rightarrow> Refused (InsufficientStock 0 (tf_unit transferForm))
                     | Some currentStock \<Rightarrow>
                         if stock_quantity currentStock < quantity
                         then Refused (InsufficientStock (stock_quantity currentStock)
                                         (tf_unit transferForm))
                         else
                           (case fromSecteurId of
                              None \<Rightarrow> Refused StoreError
                            | Some fromId \<Rightarrow>
                                Stored (db\<lparr>stock_transfers := stock_transfers db @
                                      [\<lparr>tr_id = newId env, tr_fromSecteurId = fromId,
                                        tr_toSecteurId = tf_toSecteurId transferForm,
                                        tr_item = tf_item transferForm, tr_quantity = quantity,
                                        tr_unit = tf_unit transferForm, tr_status = Pending,
                                        tr_createdAt = Some (serverTime env),
                                        tr_confirmedAt = None\<rparr>]\<rparr>)))
              | None \<Rightarrow>
                  (case find (\<lambda>s. Some (stock_secteurId s) = fromSecteurId
                                   \<and> stock_item s = tf_item transferForm) stocksSnapshot of
                     None \<Rightarrow> Refused (InsufficientStock 0 (tf_unit transferForm))
                   | Some currentStock \<Rightarrow>
                       (case fromSecteurId of
                          None \<Rightarrow> Refused StoreError
                        | Some fromId \<Rightarrow>
                            StoredNaN (AddTransferNaN fromId (tf_toSecteurId transferForm)
                                         (tf_item transferForm) (tf_unit transferForm))))))"

text \<open>
  (\<open>addDoc\<close> refuses a document with an undefined field, hence the \<open>None\<close> case of
  \<open>fromSecteurId\<close> before the write; it is never taken, since a row was found for
  \<open>fromSecteurId\<close>.)

  \<open>handleConfirmTransfer\<close>: mark the transfer confirmed, decrement the sender's row if
  the query finds one, then add to the receiver's stock. The transfer's \<open>status\<close> is not
  read, and the sender's quantity is not compared with the transfer's.
\<close>

definition handleConfirmTransfer :: "Env \<Rightarrow> StockTransfer \<Rightarrow> Store \<Rightarrow> error + Store" where
  "handleConfirmTransfer env transfer db =
     (if tr_id transfer \<notin> tr_id ` set (stock_transfers db) then Inl StoreError
      else
        let db1 = db\<lparr>stock_transfers :=
                     map (\<lambda>t. if tr_id t = tr_id transfer
                               then t\<lparr>tr_status := Confirmed,
                                      tr_confirmedAt := Some (serverTime env)\<rparr>
                               else t) (stock_transfers db)\<rparr>;
            db2 = (case stockQuery (tr_fromSecteurId transfer) (tr_item transfer) (stocks db1) of
                     [] \<Rightarrow> db1
                   | senderStockDoc # _ \<Rightarrow>
                       db1\<lparr>stocks := incrementStock (stock_id senderStockDoc)
                                        (- tr_quantity transfer) (now env) (stocks db1)\<rparr>)
        in Inr (db2\<lparr>stocks := addToStock env (tr_toSecteurId transfer) (tr_item transfer)
                                 (tr_quantity transfer) (tr_unit transfer) (stocks db2)\<rparr>))"

text \<open>
  The lists from which the page offers the "Confirmer" buttons
  (\<open>pendingIncomingTransfers\<close>, \<open>pendingAdditions\<close>).
\<close>

definition pendingIncomingTransfers :: "User \<Rightarrow> StockTransfer list \<Rightarrow> StockTransfer list" where
  "pendingIncomingTransfers user transfers =
     filter (\<lambda>t. tr_status t = Pending \<and> Some (tr_toSecteurId t) = user_fermeId user) transfers"

definition pendingAdditions :: "StockAddition list \<Rightarrow> StockAddition list" where
  "pendingAdditions stockAdditions = filter (\<lambda>a. add_status a = Pending) stockAdditions"

subsection \<open>Balances\<close>

text \<open>
  The stock row of a sector for an item is the first row with that \<open>secteurId\<close> and
  \<open>item\<close> (\<open>docs[0]\<close> of the query, \<open>Array.find\<close> on the snapshot); the balance is its
  quantity, and 0 when there is no such row.
\<close>

definition stockRow :: "string \<Rightarrow> string \<Rightarrow> StockItem list \<Rightarrow> StockItem option" where
  "stockRow secteurId item docs =
     find (\<lambda>s. stock_secteurId s = secteurId \<and> stock_item s = item) docs"

definition balance :: "string \<Rightarrow> string \<Rightarrow> StockItem list \<Rightarrow> int" where
  "balance secteurId item docs =
     (case stockRow secteurId item docs of None \<Rightarrow> 0 | Some s \<Rightarrow> stock_quantity s)"

text \<open>
  What \<open>handleTransferSubmit\<close> shows as "Stock disponible": the quantity of the sender's
  row in the snapshot, 0 without a row (\<open>currentStock?.quantity || 0\<close>).
\<close>

definition available :: "string option \<Rightarrow> string \<Rightarrow> StockItem list \<Rightarrow> int" where
  "available fromSecteurId item docs =
     (case fromSecteurId of None \<Rightarrow> 0 | Some secteurId \<Rightarrow> balance secteurId item docs)"

text \<open>
  The store after a call: unchanged when the handler stopped with an error. After a form
  handler has written \<open>NaN\<close> there is no store of the ledger.
\<close>

definition storeAfter :: "Store \<Rightarrow> error + Store \<Rightarrow> Store" where
  "storeAfter db result = (case result of Inl e \<Rightarrow> db | Inr db' \<Rightarrow> db')"

definition storeAfterSubmit :: "Store \<Rightarrow> submission \<Rightarrow> Store option" where
  "storeAfterSubmit db result =
     (case result of Refused e \<Rightarrow> Some db | Stored db' \<Rightarrow> Some db' | StoredNaN w \<Rightarrow> None)"

subsection \<open>Sequences of operations\<close>

text \<open>
  The four operations of the ledger with what each call takes from outside: the role and
  the user, the form or the record, the page's list of stock rows
  (\<open>handleTransferSubmit\<close> only) and the environment. \<open>runOps\<close> performs a sequence;
  a call that stops with an error leaves the store as it was, and a call that writes
  \<open>NaN\<close> ends the run in the ledger (\<open>None\<close>).
\<close>

datatype operation =
    AddStock bool User AddStockForm Env
  | ConfirmAddition StockAddition Env
  | CreateTransfer bool User TransferForm "StockItem list" Env
  | ConfirmTransfer User StockTransfer Env

fun perform :: "operation \<Rightarrow> Store \<Rightarrow> Store option" where
  "perform (AddStock isSuperAdmin user addStockForm env) db =
     storeAfterSubmit db (handleAddStockSubmit isSuperAdmin user addStockForm env db)"
| "perform (ConfirmAddition addition env) db =
     Some (storeAfter db (handleConfirmAddition env addition db))"
| "perform (CreateTransfer isSuperAdmin user transferForm stocksSnapshot env) db =
     storeAfterSubmit db
       (handleTransferSubmit isSuperAdmin user transferForm stocksSnapshot env db)"
| "perform (ConfirmTransfer user transfer env) db =
     Some (storeAfter db (handleConfirmTransfer env transfer db))"

fun runOps :: "operation list \<Rightarrow> Store \<Rightarrow> Store option" where
  "runOps [] db = Some db"
| "runOps (op # ops) db =
     (case perform op db of None \<Rightarrow> None | Some db' \<Rightarrow> runOps ops db')"

text \<open>
  What the page and the store allow at a given state. The page offers a confirmation only
  for a record of its lists of pending records, which it reads from the store; the rows of
  the page's list of stock rows are rows of the store; the store gives a new document an id
  that no document of the collection has.
\<close>

fun offered :: "operation \<Rightarrow> Store \<Rightarrow> bool" where
  "offered (AddStock isSuperAdmin user addStockForm env) db =
     (newId env \<notin> stock_id ` set (stocks db))"
| "offered (ConfirmAddition addition env) db =
     (addition \<in> set (pendingAdditions (stock_additions db))
      \<and> newId env \<notin> stock_id ` set (stocks db))"
| "offered (CreateTransfer isSuperAdmin user transferForm stocksSnapshot env) db =
     (set stocksSnapshot \<subseteq> set (stocks db)
      \<and> newId env \<notin> tr_id ` set (stock_transfers db))"
| "offered (ConfirmTransfer user transfer env) db =
     (transfer \<in> set (pendingIncomingTransfers user (stock_transfers db))
      \<and> newId env \<notin> stock_id ` set (stocks db))"

text \<open>
  The two conditions under which the quantities stay non-negative; the handlers test
  neither. \<open>readable\<close>: the quantity text of a form is empty or a text from which
  \<open>parseInt\<close> reads a number. \<open>oneAtATime\<close>: a transfer is not created from a
  sector's row for an item while another transfer from that row is pending.
\<close>

fun readable :: "operation \<Rightarrow> bool" where
  "readable (AddStock isSuperAdmin user addStockForm env) =
     (af_quantity addStockForm = [] \<or> parseInt (af_quantity addStockForm) \<noteq> None)"
| "readable (CreateTransfer isSuperAdmin user transferForm stocksSnapshot env) =
     (tf_quantity transferForm = [] \<or> parseInt (tf_quantity transferForm) \<noteq> None)"
| "readable (ConfirmAddition addition env) = True"
| "readable (ConfirmTransfer user transfer env) = True"

definition pendingFrom :: "string option \<Rightarrow> string \<Rightarrow> StockTransfer list \<Rightarrow> StockTransfer list" where
  "pendingFrom fromSecteurId item transfers =
     filter (\<lambda>t. tr_status t = Pending \<and> Some (tr_fromSecteurId t) = fromSecteurId
                 \<and> tr_item t = item) transfers"

fun oneAtATime :: "operation \<Rightarrow> Store \<Rightarrow> bool" where
  "oneAtATime (CreateTransfer isSuperAdmin user transferForm stocksSnapshot env) db =
     (pendingFrom (senderSecteurId isSuperAdmin user transferForm) (tf_item transferForm)
        (stock_transfers db) = [])"
| "oneAtATime (AddStock isSuperAdmin user addStockForm env) db = True"
| "oneAtATime (ConfirmAddition addition env) db = True"
| "oneAtATime (ConfirmTransfer user transfer env) db = True"

fun offeredRun :: "operation list \<Rightarrow> Store \<Rightarrow> bool" where
  "offeredRun [] db = True"
| "offeredRun (op # ops) db =
     (offered op db
      \<and> (case perform op db of None \<Rightarrow> True | Some db' \<Rightarrow> offeredRun ops db'))"

fun oneAtATimeRun :: "operation list \<Rightarrow> Store \<Rightarrow> bool" where
  "oneAtATimeRun [] db = True"
| "oneAtATimeRun (op # ops) db =
     (oneAtATime op db
      \<and> (case perform op db of None \<Rightarrow> True | Some db' \<Rightarrow> oneAtATimeRun ops db'))"

text \<open>
  The invariant of the stock rows, \<open>quantity \<ge> 0\<close>, and what goes with it along a
  sequence of operations: unique ids, one stock row for a sector and an item, positive
  quantities in the stored additions and transfers (the handlers create them with
  \<open>quantity > 0\<close>), and for every pending transfer a sender's row that holds at least
  its quantity, with no second pending transfer from that row.
\<close>

definition quantitiesNonNegative :: "Store \<Rightarrow> bool" where
  "quantitiesNonNegative db = list_all (\<lambda>s. 0 \<le> stock_quantity s) (stocks db)"

definition ledgerInv :: "Store \<Rightarrow> bool" where
  "ledgerInv db =
     (distinct (map stock_id (stocks db))
      \<and> distinct (map tr_id (stock_transfers db))
      \<and> distinct (map (\<lambda>s. (stock_secteurId s, stock_item s)) (stocks db))
      \<and> quantitiesNonNegative db
      \<and> list_all (\<lambda>a. 0 < add_quantity a) (stock_additions db)
      \<and> list_all (\<lambda>t. 0 < tr_quantity t) (stock_transfers db)
      \<and> list_all (\<lambda>t. tr_quantity t
                          \<le> balance (tr_fromSecteurId t) (tr_item t) (stocks db))
            (filter (\<lambda>t. tr_status t = Pending) (stock_transfers db))
      \<and> distinct (map (\<lambda>t. (tr_fromSecteurId t, tr_item t))
                    (filter (\<lambda>t. tr_status t = Pending) (stock_transfers db))))"

text \<open>The stock quantities after a sequence of operations, in the order of the rows.\<close>

definition quantitiesAfter :: "operation list \<Rightarrow> Store \<Rightarrow> int list option" where
  "quantitiesAfter ops db = map_option (\<lambda>db'. map stock_quantity (stocks db')) (runOps ops db)"

section \<open>Room occupancy (client/pages/Fermes.tsx)\<close>

text \<open>
  The page reads the \<open>workers\<close> and \<open>rooms\<close> collections, recounts the occupants of
  every room from the workers' assignments (\<open>syncRoomOccupancy\<close>) and derives the
  statistics of a farm (\<open>getFermeStats\<close>).
\<close>

subsection \<open>Data (shared/types.ts)\<close>

datatype sexe = homme | femme

datatype statut = actif | inactif

datatype genre = hommes | femmes

text \<open>
  Of a worker the two functions read \<open>id\<close>, \<open>fermeId\<close>, \<open>sexe\<close>, \<open>chambre\<close> and
  \<open>statut\<close>; the other fields of the interface are left out. A room has all the fields
  of its interface and \<open>updatedAt\<close>, which the interface does not declare but
  \<open>syncRoomOccupancy\<close> writes.
\<close>

record Worker =
  worker_id :: string
  worker_fermeId :: string
  worker_sexe :: sexe
  worker_chambre :: string
  worker_statut :: statut

record Room =
  room_id :: string
  room_numero :: string
  room_fermeId :: string
  room_genre :: genre
  room_capaciteTotale :: int
  room_occupantsActuels :: int
  room_listeOccupants :: "string list"
  room_updatedAt :: "timestamp option"

text \<open>The text of a room's \<open>genre\<close> inside a template string.\<close>

fun genreText :: "genre \<Rightarrow> string" where
  "genreText hommes = ''hommes''"
| "genreText femmes = ''femmes''"

text \<open>\<open>worker.sexe === 'homme' ? 'hommes' : 'femmes'\<close>\<close>

definition workerGender :: "Worker \<Rightarrow> string" where
  "workerGender worker = (if worker_sexe worker = homme then ''hommes'' else ''femmes'')"

subsection \<open>syncRoomOccupancy\<close>

text \<open>
  The keys of the grouping are template strings:
  \<open>`${worker.fermeId}-${worker.chambre}-${workerGender}`\<close> for a worker and
  \<open>`${room.fermeId}-${room.numero}-${room.genre}`\<close> for a room.
\<close>

definition workerKey :: "Worker \<Rightarrow> string" where
  "workerKey worker =
     worker_fermeId worker @ ''-'' @ worker_chambre worker @ ''-'' @ workerGender worker"

definition roomKey :: "Room \<Rightarrow> string" where
  "roomKey room = room_fermeId room @ ''-'' @ room_numero room @ ''-'' @ genreText (room_genre room)"

text \<open>
  \<open>workers.reduce(...)\<close>: an active worker with a non-empty \<open>chambre\<close> and
  \<open>fermeId\<close> is appended to the list under its key; the dictionary is a map.
\<close>

definition workersByRoom :: "Worker list \<Rightarrow> (string \<rightharpoonup> Worker list)" where
  "workersByRoom workers =
     fold (\<lambda>worker acc.
             if worker_statut worker = actif \<and> worker_chambre worker \<noteq> []
                \<and> worker_fermeId worker \<noteq> []
             then acc(workerKey worker \<mapsto>
                        (case acc (workerKey worker) of None \<Rightarrow> [] | Some ws \<Rightarrow> ws) @ [worker])
             else acc)
          workers Map.empty"

text \<open>\<open>workersByRoom[roomKey] || []\<close>\<close>

definition workersInRoom :: "Worker list \<Rightarrow> Room \<Rightarrow> Worker list" where
  "workersInRoom workers room =
     (case workersByRoom workers (roomKey room) of None \<Rightarrow> [] | Some ws \<Rightarrow> ws)"

definition actualOccupants :: "Worker list \<Rightarrow> Room \<Rightarrow> int" where
  "actualOccupants workers room = int (length (workersInRoom workers room))"

text \<open>The second argument of \<open>updateRoom\<close>: the three fields that the loop writes.\<close>

record RoomUpdate =
  upd_occupantsActuels :: int
  upd_listeOccupants :: "string list"
  upd_updatedAt :: timestamp

definition correctionOf :: "timestamp \<Rightarrow> Worker list \<Rightarrow> Room \<Rightarrow> RoomUpdate" where
  "correctionOf today workers room =
     \<lparr>upd_occupantsActuels = actualOccupants workers room,
      upd_listeOccupants = map worker_id (workersInRoom workers room),
      upd_updatedAt = today\<rparr>"

text \<open>
  Modelled from the spec: \<open>updateRoom\<close> is \<open>updateDocument\<close> of the hook
  \<open>useFirestore\<close>, which is not among the sources. The specification gives it as
  \<open>updateDocument(collection, id, partialData)\<close>: the document with that id takes the
  fields of \<open>partialData\<close> and keeps its other fields; no other document is written.
\<close>

definition updateRoom :: "string \<Rightarrow> RoomUpdate \<Rightarrow> Room list \<Rightarrow> Room list" where
  "updateRoom docId partialData docs =
     map (\<lambda>r. if room_id r = docId
               then r\<lparr>room_occupantsActuels := upd_occupantsActuels partialData,
                      room_listeOccupants := upd_listeOccupants partialData,
                      room_updatedAt := Some (upd_updatedAt partialData)\<rparr>
               else r) docs"

text \<open>
  The loop of \<open>syncRoomOccupancy\<close> over the page's \<open>rooms\<close>: a room whose stored
  \<open>occupantsActuels\<close> differs from the recount gets an \<open>updateRoom\<close> call. The
  function returns the collection after the calls; \<open>today\<close> is \<open>new Date()\<close>. Store
  calls are taken to succeed (a failed call is caught, logged and skipped), and
  \<open>updateRoom\<close> to be there (without it the function returns at once).
\<close>

definition syncRoomOccupancy ::
  "timestamp \<Rightarrow> Worker list \<Rightarrow> Room list \<Rightarrow> Room list \<Rightarrow> Room list" where
  "syncRoomOccupancy today workers rooms docs =
     fold (\<lambda>room docs'.
             if room_occupantsActuels room \<noteq> actualOccupants workers room
             then updateRoom (room_id room) (correctionOf today workers room) docs'
             else docs')
          rooms docs"

text \<open>
  A document \<open>r\<close> after the loop's step for \<open>room\<close>, when \<open>r\<close> is the document
  that the step addresses.
\<close>

definition corrected :: "timestamp \<Rightarrow> Worker list \<Rightarrow> Room \<Rightarrow> Room \<Rightarrow> Room" where
  "corrected today workers room r =
     (if room_occupantsActuels room \<noteq> actualOccupants workers room
      then r\<lparr>room_occupantsActuels := actualOccupants workers room,
             room_listeOccupants := map worker_id (workersInRoom workers room),
             room_updatedAt := Some today\<rparr>
      else r)"

text \<open>The calls that the loop makes, in order: the corrections.\<close>

definition roomCorrections ::
  "timestamp \<Rightarrow> Worker list \<Rightarrow> Room list \<Rightarrow> (string \<times> RoomUpdate) list" where
  "roomCorrections today workers rooms =
     map (\<lambda>room. (room_id room, correctionOf today workers room))
       (filter (\<lambda>room. room_occupantsActuels room \<noteq> actualOccupants workers room) rooms)"

text \<open>
  The count that the specification states for a room: the active workers whose
  \<open>chambre\<close>, gender label and \<open>fermeId\<close> are the room's \<open>numero\<close>, \<open>genre\<close> and
  \<open>fermeId\<close>.
\<close>

definition trueOccupants :: "Worker list \<Rightarrow> Room \<Rightarrow> Worker list" where
  "trueOccupants workers room =
     filter (\<lambda>w. worker_statut w = actif \<and> worker_chambre w = room_numero room
                 \<and> workerGender w = genreText (room_genre room)
                 \<and> worker_fermeId w = room_fermeId room) workers"

subsection \<open>getFermeStats\<close>

text \<open>
  The statistics are computed with JavaScript numbers. Counts and capacities are integers;
  the two rates are quotients, which the model keeps as exact rationals where the program
  holds their double-precision values. \<open>Math.round\<close> rounds to the nearest integer,
  halves upwards; the program's product can fall just below a half that the exact value
  reaches (29 places of 200), so at an exact half the program may round down where
  \<open>Math_round\<close> rounds up. The statements below hold for either rounding of a half.
\<close>

definition Math_round :: "rat \<Rightarrow> int" where
  "Math_round x = \<lfloor>x + 1 / 2\<rfloor>"

definition fermeWorkers :: "string \<Rightarrow> Worker list \<Rightarrow> Worker list" where
  "fermeWorkers fermeId workers =
     filter (\<lambda>w. worker_fermeId w = fermeId \<and> worker_statut w = actif) workers"

definition fermeRooms :: "string \<Rightarrow> Room list \<Rightarrow> Room list" where
  "fermeRooms fermeId rooms = filter (\<lambda>r. room_fermeId r = fermeId) rooms"

text \<open>
  The second \<open>workersByRoom\<close>, local to \<open>getFermeStats\<close>: a count per key
  \<open>`${worker.chambre}-${workerGenderType}`\<close> over the farm's active workers.
\<close>

definition countByRoom :: "Worker list \<Rightarrow> (string \<rightharpoonup> int)" where
  "countByRoom fermeWorkers' =
     fold (\<lambda>worker acc.
             if worker_chambre worker \<noteq> []
             then acc(worker_chambre worker @ ''-'' @ workerGender worker \<mapsto>
                        (case acc (worker_chambre worker @ ''-'' @ workerGender worker) of
                           None \<Rightarrow> 0 | Some n \<Rightarrow> n) + 1)
             else acc)
          fermeWorkers' Map.empty"

record RoomStat =
  stat_room :: Room
  stat_workersCount :: int
  stat_isOccupied :: bool
  stat_capacityUsed :: int
  stat_utilizationRate :: rat
  stat_isOvercapacity :: bool

definition roomStat :: "(string \<rightharpoonup> int) \<Rightarrow> Room \<Rightarrow> RoomStat" where
  "roomStat byRoom room =
     (let workersInRoom' = (case byRoom (room_numero room @ ''-'' @ genreText (room_genre room)) of
                              None \<Rightarrow> 0 | Some n \<Rightarrow> n);
          capacityUsed = min workersInRoom' (room_capaciteTotale room)
      in \<lparr>stat_room = room,
          stat_workersCount = workersInRoom',
          stat_isOccupied = (workersInRoom' > 0),
          stat_capacityUsed = capacityUsed,
          stat_utilizationRate =
            (if room_capaciteTotale room > 0
             then (of_int capacityUsed / of_int (room_capaciteTotale room)) * 100 else 0),
          stat_isOvercapacity = (workersInRoom' > room_capaciteTotale room)\<rparr>)"

definition roomStats :: "string \<Rightarrow> Worker list \<Rightarrow> Room list \<Rightarrow> RoomStat list" where
  "roomStats fermeId workers rooms =
     map (roomStat (countByRoom (fermeWorkers fermeId workers))) (fermeRooms fermeId rooms)"

definition totalCapacity :: "string \<Rightarrow> Room list \<Rightarrow> int" where
  "totalCapacity fermeId rooms =
     fold (\<lambda>room sum. sum + room_capaciteTotale room) (fermeRooms fermeId rooms) 0"

definition totalOccupied :: "string \<Rightarrow> Worker list \<Rightarrow> Room list \<Rightarrow> int" where
  "totalOccupied fermeId workers rooms =
     fold (\<lambda>stat sum. sum + stat_capacityUsed stat) (roomStats fermeId workers rooms) 0"

definition averageUtilization :: "string \<Rightarrow> Worker list \<Rightarrow> Room list \<Rightarrow> rat" where
  "averageUtilization fermeId workers rooms =
     (if totalCapacity fermeId rooms > 0
      then (of_int (totalOccupied fermeId workers rooms) / of_int (totalCapacity fermeId rooms))
           * 100
      else 0)"

definition tauxOccupation :: "string \<Rightarrow> Worker list \<Rightarrow> Room list \<Rightarrow> int" where
  "tauxOccupation fermeId workers rooms = Math_round (averageUtilization fermeId workers rooms)"

subsection \<open>A small store, for evaluating the handlers\<close>

definition demo_env :: Env where
  "demo_env = \<lparr>newId = ''n1'', now = ''2024-05-02T08:00:00.000Z'', serverTime = 7\<rparr>"

definition demo_row :: StockItem where
  "demo_row = \<lparr>stock_id = ''s1'', stock_secteurId = ''A'', stock_item = ''ciment'',
                stock_quantity = 10, stock_unit = ''sac'',
                stock_lastUpdated = ''2024-05-01T08:00:00.000Z''\<rparr>"

definition demo_transfer :: StockTransfer where
  "demo_transfer = \<lparr>tr_id = ''t1'', tr_fromSecteurId = ''A'', tr_toSecteurId = ''B'',
                     tr_item = ''ciment'', tr_quantity = 4, tr_unit = ''sac'',
                     tr_status = Pending, tr_createdAt = Some 3, tr_confirmedAt = None\<rparr>"

definition demo_db :: Store where
  "demo_db = \<lparr>stocks = [demo_row], stock_transfers = [demo_transfer], stock_additions = []\<rparr>"

definition demo_addition :: StockAddition where
  "demo_addition = \<lparr>add_id = ''a1'', add_secteurId = ''A'', add_item = ''ciment'',
                     add_quantity = 5, add_unit = ''kg'', add_status = Pending,
                     add_addedBy = ''u0'', add_createdAt = Some 2, add_confirmedAt = None\<rparr>"

definition demo_row_B :: StockItem where
  "demo_row_B = \<lparr>stock_id = ''s2'', stock_secteurId = ''B'', stock_item = ''ciment'',
                  stock_quantity = 1, stock_unit = ''tonne'',
                  stock_lastUpdated = ''2024-04-30T08:00:00.000Z''\<rparr>"

definition demo_db2 :: Store where
  "demo_db2 = \<lparr>stocks = [demo_row, demo_row_B], stock_transfers = [demo_transfer],
                stock_additions = [demo_addition]\<rparr>"

definition emptyStore :: Store where
  "emptyStore = \<lparr>stocks = [], stock_transfers = [], stock_additions = []\<rparr>"

definition envWithId :: "string \<Rightarrow> Env" where
  "envWithId docId = \<lparr>newId = docId, now = ''2024-05-02T08:00:00.000Z'', serverTime = 7\<rparr>"

definition user_A :: User where
  "user_A = \<lparr>user_uid = ''uA'', user_fermeId = Some ''A''\<rparr>"

definition user_B :: User where
  "user_B = \<lparr>user_uid = ''uB'', user_fermeId = Some ''B''\<rparr>"

definition add_ten :: AddStockForm where
  "add_ten = \<lparr>af_item = ''ciment'', af_quantity = ''10'', af_unit = ''sac'',
               af_secteurId = ''A''\<rparr>"

definition send_ten :: TransferForm where
  "send_ten = \<lparr>tf_item = ''ciment'', tf_quantity = ''10'', tf_unit = ''sac'',
                tf_toSecteurId = ''B'', tf_fromSecteurId = []\<rparr>"

definition ten_in_A :: StockItem where
  "ten_in_A = \<lparr>stock_id = ''s1'', stock_secteurId = ''A'', stock_item = ''ciment'',
                stock_quantity = 10, stock_unit = ''sac'',
                stock_lastUpdated = ''2024-05-02T08:00:00.000Z''\<rparr>"

definition pending_ten :: "string \<Rightarrow> StockTransfer" where
  "pending_ten docId = \<lparr>tr_id = docId, tr_fromSecteurId = ''A'', tr_toSecteurId = ''B'',
                         tr_item = ''ciment'', tr_quantity = 10, tr_unit = ''sac'',
                         tr_status = Pending, tr_createdAt = Some 7, tr_confirmedAt = None\<rparr>"

definition orderly_ops :: "operation list" where
  "orderly_ops =
     [AddStock False user_A add_ten (envWithId ''s1''),
      CreateTransfer False user_A send_ten [ten_in_A] (envWithId ''t1''),
      ConfirmTransfer user_B (pending_ten ''t1'') (envWithId ''s2'')]"

definition overdrawing_ops :: "operation list" where
  "overdrawing_ops =
     [AddStock False user_A add_ten (envWithId ''s1''),
      CreateTransfer False user_A send_ten [ten_in_A] (envWithId ''t1''),
      CreateTransfer False user_A send_ten [ten_in_A] (envWithId ''t2''),
      ConfirmTransfer user_B (pending_ten ''t1'') (envWithId ''s2''),
      ConfirmTransfer user_B (pending_ten ''t2'') (envWithId ''s3'')]"

definition stale_ops :: "operation list" where
  "stale_ops =
     [AddStock False user_A add_ten (envWithId ''s1''),
      CreateTransfer False user_A send_ten [ten_in_A] (envWithId ''t1''),
      ConfirmTransfer user_B (pending_ten ''t1'') (envWithId ''s2''),
      CreateTransfer False user_A send_ten [ten_in_A] (envWithId ''t2''),
      ConfirmTransfer user_B (pending_ten ''t2'') (envWithId ''s3'')]"

definition confirmed_transfer :: StockTransfer where
  "confirmed_transfer = demo_transfer\<lparr>tr_status := Confirmed, tr_confirmedAt := Some 5\<rparr>"

definition confirmed_addition :: StockAddition where
  "confirmed_addition = demo_addition\<lparr>add_status := Confirmed, add_confirmedAt := Some 5\<rparr>"

definition confirmed_db :: Store where
  "confirmed_db = \<lparr>stocks = [demo_row, demo_row_B], stock_transfers = [confirmed_transfer],
                    stock_additions = [confirmed_addition]\<rparr>"

text \<open>A store holding one confirmed and one pending record of each kind.\<close>

definition offered_db :: Store where
  "offered_db = \<lparr>stocks = [demo_row, demo_row_B],
                  stock_transfers = [confirmed_transfer, pending_ten ''t2''],
                  stock_additions = [confirmed_addition, demo_addition\<lparr>add_id := ''a2''\<rparr>]\<rparr>"

text \<open>
  A super admin, a reading of the date texts of the example rows, and a request for 15
  from sector A, which holds 10.
\<close>

definition super_admin :: User where
  "super_admin = \<lparr>user_uid = ''u0'', user_fermeId = None\<rparr>"

definition demo_getTime :: "string \<Rightarrow> int" where
  "demo_getTime text =
     (if text = ''2024-05-02T08:00:00.000Z'' then 1714636800000
      else if text = ''2024-05-01T08:00:00.000Z'' then 1714550400000
      else if text = ''2024-04-30T08:00:00.000Z'' then 1714464000000
      else 0)"

definition fifteen_from_A :: TransferForm where
  "fifteen_from_A = \<lparr>tf_item = ''ciment'', tf_quantity = ''15'', tf_unit = ''sac'',
                      tf_toSecteurId = ''B'', tf_fromSecteurId = ''A''\<rparr>"

subsection \<open>A small farm, for evaluating the occupancy functions\<close>

definition worker_in :: "string \<Rightarrow> string \<Rightarrow> sexe \<Rightarrow> string \<Rightarrow> Worker" where
  "worker_in docId fermeId s chambre =
     \<lparr>worker_id = docId, worker_fermeId = fermeId, worker_sexe = s, worker_chambre = chambre,
      worker_statut = actif\<rparr>"

definition room_101 :: Room where
  "room_101 = \<lparr>room_id = ''r1'', room_numero = ''101'', room_fermeId = ''F1'', room_genre = hommes,
               room_capaciteTotale = 4, room_occupantsActuels = 1, room_listeOccupants = [''w1''],
               room_updatedAt = None\<rparr>"

definition room_201 :: Room where
  "room_201 = \<lparr>room_id = ''r2'', room_numero = ''201'', room_fermeId = ''F1'', room_genre = femmes,
               room_capaciteTotale = 3, room_occupantsActuels = 1, room_listeOccupants = [''w3''],
               room_updatedAt = None\<rparr>"

definition demo_workers :: "Worker list" where
  "demo_workers = [worker_in ''w1'' ''F1'' homme ''101'', worker_in ''w2'' ''F1'' homme ''101'',
                   worker_in ''w3'' ''F1'' femme ''201'', worker_in ''w4'' ''F1'' femme []]"

definition demo_rooms :: "Room list" where
  "demo_rooms = [room_101, room_201]"

definition colliding_worker :: Worker where
  "colliding_worker = worker_in ''w9'' ''F-1'' homme ''2''"

definition colliding_room :: Room where
  "colliding_room = \<lparr>room_id = ''r9'', room_numero = ''1-2'', room_fermeId = ''F'',
                     room_genre = hommes, room_capaciteTotale = 4, room_occupantsActuels = 0,
                     room_listeOccupants = [], room_updatedAt = None\<rparr>"

definition unassigned_worker :: Worker where
  "unassigned_worker = worker_in ''w8'' ''F1'' femme []"

definition unnumbered_room :: Room where
  "unnumbered_room = \<lparr>room_id = ''r8'', room_numero = [], room_fermeId = ''F1'',
                      room_genre = femmes, room_capaciteTotale = 4, room_occupantsActuels = 0,
                      room_listeOccupants = [], room_updatedAt = None\<rparr>"

definition room_301 :: Room where
  "room_301 = \<lparr>room_id = ''r3'', room_numero = ''301'', room_fermeId = ''F1'', room_genre = hommes,
               room_capaciteTotale = 3, room_occupantsActuels = 1, room_listeOccupants = [''w5''],
               room_updatedAt = None\<rparr>"

definition room_401 :: Room where
  "room_401 = \<lparr>room_id = ''r4'', room_numero = ''401'', room_fermeId = ''F1'', room_genre = hommes,
               room_capaciteTotale = 1, room_occupantsActuels = 2,
               room_listeOccupants = [''w6'', ''w7''], room_updatedAt = None\<rparr>"

section \<open>Properties of the stock ledger\<close>

subsection \<open>Rows, queries and balances\<close>

lemma stockRow_stockQuery:
  "stockRow sec it docs = (case stockQuery sec it docs of [] \<Rightarrow> None | d # _ \<Rightarrow> Some d)"
  unfolding stockRow_def stockQuery_def by (induction docs) auto

lemma stockRow_in_set: "stockRow sec it docs = Some d \<Longrightarrow> d \<in> set docs"
  unfolding stockRow_def by (induction docs) (auto split: if_splits)

lemma stockRow_key:
  "stockRow sec it docs = Some d \<Longrightarrow> stock_secteurId d = sec \<and> stock_item d = it"
  unfolding stockRow_def by (induction docs) (auto split: if_splits)

lemma stockRow_append:
  "stockRow sec it (xs @ ys) =
     (case stockRow sec it xs of None \<Rightarrow> stockRow sec it ys | Some d \<Rightarrow> Some d)"
  unfolding stockRow_def by (induction xs) auto

lemma ids_incrementStock [simp]: "map stock_id (incrementStock i n t docs) = map stock_id docs"
  unfolding incrementStock_def by (induction docs) auto

lemma stockRow_incrementStock:
  "stockRow sec it (incrementStock i n t docs) =
     map_option (\<lambda>s. if stock_id s = i
                      then s\<lparr>stock_quantity := stock_quantity s + n, stock_lastUpdated := t\<rparr>
                      else s) (stockRow sec it docs)"
  unfolding stockRow_def incrementStock_def by (induction docs) auto

lemma distinct_ids_eq:
  "distinct (map stock_id docs) \<Longrightarrow> a \<in> set docs \<Longrightarrow> b \<in> set docs \<Longrightarrow>
   stock_id a = stock_id b \<Longrightarrow> a = b"
  by (meson distinct_map inj_onD)

lemma balance_incrementStock_same:
  "stockRow sec it docs = Some d \<Longrightarrow>
   balance sec it (incrementStock (stock_id d) n t docs) = stock_quantity d + n"
  by (simp add: balance_def stockRow_incrementStock)

lemma balance_incrementStock_other:
  assumes "distinct (map stock_id docs)" "d \<in> set docs"
    and "\<not> (stock_secteurId d = sec \<and> stock_item d = it)"
  shows "balance sec it (incrementStock (stock_id d) n t docs) = balance sec it docs"
proof (cases "stockRow sec it docs")
  case None
  then show ?thesis by (simp add: balance_def stockRow_incrementStock)
next
  case (Some e)
  have "e \<in> set docs" using Some by (rule stockRow_in_set)
  moreover have "e \<noteq> d" using stockRow_key[OF Some] assms(3) by auto
  ultimately have "stock_id e \<noteq> stock_id d"
    using distinct_ids_eq[OF assms(1) _ assms(2)] by blast
  then show ?thesis using Some by (simp add: balance_def stockRow_incrementStock)
qed

lemma balance_addToStock_same:
  "balance sec it (addToStock env sec it q u docs) = balance sec it docs + q"
proof (cases "stockRow sec it docs")
  case None
  then have "stockQuery sec it docs = []"
    by (simp add: stockRow_stockQuery split: list.splits)
  moreover have "stockRow sec it [r] = Some r"
    if "stock_secteurId r = sec" "stock_item r = it" for r
    using that by (simp add: stockRow_def)
  ultimately show ?thesis using None
    by (simp add: addToStock_def balance_def stockRow_append)
next
  case (Some d)
  then obtain rest where "stockQuery sec it docs = d # rest"
    by (auto simp: stockRow_stockQuery split: list.splits)
  then show ?thesis using Some balance_incrementStock_same[OF Some]
    by (simp add: addToStock_def balance_def)
qed

lemma balance_addToStock_other:
  assumes "distinct (map stock_id docs)" "\<not> (sec' = sec \<and> it' = it)"
  shows "balance sec' it' (addToStock env sec it q u docs) = balance sec' it' docs"
proof (cases "stockQuery sec it docs")
  case Nil
  have "stockRow sec' it' [r] = None"
    if "stock_secteurId r = sec" "stock_item r = it" for r
    using that assms(2) by (auto simp: stockRow_def)
  then show ?thesis using Nil
    by (simp add: addToStock_def balance_def stockRow_append split: option.splits)
next
  case (Cons d rest)
  then have row: "stockRow sec it docs = Some d" by (simp add: stockRow_stockQuery)
  have "balance sec' it' (incrementStock (stock_id d) q (now env) docs) = balance sec' it' docs"
    using assms stockRow_in_set[OF row] stockRow_key[OF row]
    by (intro balance_incrementStock_other) auto
  then show ?thesis using Cons by (simp add: addToStock_def)
qed

lemma stockRow_addToStock_same:
  "stockRow sec it (addToStock env sec it q u docs) \<noteq> None"
proof (cases "stockQuery sec it docs")
  case Nil
  then show ?thesis
    by (simp add: addToStock_def stockRow_append split: option.splits) (simp add: stockRow_def)
next
  case (Cons d rest)
  then have "stockRow sec it docs = Some d" by (simp add: stockRow_stockQuery)
  then show ?thesis using Cons by (simp add: addToStock_def stockRow_incrementStock)
qed

lemma stockRow_incrementStock_other:
  assumes "distinct (map stock_id docs)" "d \<in> set docs"
    and "\<not> (stock_secteurId d = sec \<and> stock_item d = it)"
  shows "stockRow sec it (incrementStock (stock_id d) n t docs) = stockRow sec it docs"
proof (cases "stockRow sec it docs")
  case None
  then show ?thesis by (simp add: stockRow_incrementStock)
next
  case (Some e)
  have "e \<in> set docs" using Some by (rule stockRow_in_set)
  moreover have "e \<noteq> d" using stockRow_key[OF Some] assms(3) by auto
  ultimately have "stock_id e \<noteq> stock_id d"
    using distinct_ids_eq[OF assms(1) _ assms(2)] by blast
  then show ?thesis using Some by (simp add: stockRow_incrementStock)
qed

lemma addToStock_existing:
  assumes "stockRow sec it docs = Some row"
  shows "addToStock env sec it q u docs = incrementStock (stock_id row) q (now env) docs"
proof -
  obtain rest where "stockQuery sec it docs = row # rest"
    using assms by (auto simp: stockRow_stockQuery split: list.splits)
  then show ?thesis by (simp add: addToStock_def)
qed

lemma sender_step_keeps_other_row:
  assumes ids: "distinct (map stock_id docs)" and two: "A \<noteq> B"
  shows "stockRow B it
           (case stockQuery A it docs of [] \<Rightarrow> docs
            | senderStockDoc # _ \<Rightarrow> incrementStock (stock_id senderStockDoc) n t docs)
         = stockRow B it docs"
proof (cases "stockQuery A it docs")
  case Nil
  then show ?thesis by simp
next
  case (Cons d rest)
  then have row: "stockRow A it docs = Some d" by (simp add: stockRow_stockQuery)
  show ?thesis using Cons ids two stockRow_in_set[OF row] stockRow_key[OF row]
    by (simp add: stockRow_incrementStock_other)
qed

lemma sender_step_ids:
  "map stock_id (case stockQuery A it docs of [] \<Rightarrow> docs
            | senderStockDoc # _ \<Rightarrow> incrementStock (stock_id senderStockDoc) n t docs)
   = map stock_id docs"
  by (cases "stockQuery A it docs") simp_all

lemma find_sender:
  "find (\<lambda>s. stock_secteurId s = f \<and> stock_item s = it) docs = stockRow f it docs"
  by (simp add: stockRow_def)

lemma find_no_sender: "find (\<lambda>s. False) docs = None"
  by (induction docs) auto

subsection \<open>What the confirmations do to the balances\<close>

lemma balance_confirmAddition:
  assumes "add_id addition \<in> add_id ` set (stock_additions db)"
  shows "\<exists>db'. handleConfirmAddition env addition db = Inr db' \<and>
           balance (add_secteurId addition) (add_item addition) (stocks db')
             = balance (add_secteurId addition) (add_item addition) (stocks db)
               + add_quantity addition"
  using assms by (simp add: handleConfirmAddition_def Let_def balance_addToStock_same)

lemma balances_confirmTransfer:
  assumes ids: "distinct (map stock_id (stocks db))"
    and known: "tr_id transfer \<in> tr_id ` set (stock_transfers db)"
    and two: "tr_fromSecteurId transfer \<noteq> tr_toSecteurId transfer"
    and row: "stockRow (tr_fromSecteurId transfer) (tr_item transfer) (stocks db) = Some senderRow"
  shows "\<exists>db'. handleConfirmTransfer env transfer db = Inr db' \<and>
           balance (tr_fromSecteurId transfer) (tr_item transfer) (stocks db')
             = stock_quantity senderRow - tr_quantity transfer \<and>
           balance (tr_toSecteurId transfer) (tr_item transfer) (stocks db')
             = balance (tr_toSecteurId transfer) (tr_item transfer) (stocks db)
               + tr_quantity transfer \<and>
           stockRow (tr_toSecteurId transfer) (tr_item transfer) (stocks db') \<noteq> None"
proof -
  let ?A = "tr_fromSecteurId transfer" and ?B = "tr_toSecteurId transfer"
  let ?i = "tr_item transfer" and ?Q = "tr_quantity transfer"
  let ?debited = "incrementStock (stock_id senderRow) (- ?Q) (now env) (stocks db)"
  let ?final = "addToStock env ?B ?i ?Q (tr_unit transfer) ?debited"
  obtain rest where q: "stockQuery ?A ?i (stocks db) = senderRow # rest"
    using row by (auto simp: stockRow_stockQuery split: list.splits)
  have res: "handleConfirmTransfer env transfer db =
               Inr (db\<lparr>stock_transfers :=
                        map (\<lambda>t. if tr_id t = tr_id transfer
                                  then t\<lparr>tr_status := Confirmed,
                                         tr_confirmedAt := Some (serverTime env)\<rparr>
                                  else t) (stock_transfers db),
                      stocks := ?final\<rparr>)"
    using known q by (simp add: handleConfirmTransfer_def Let_def)
  have ids': "distinct (map stock_id ?debited)" using ids by simp
  have mem: "senderRow \<in> set (stocks db)" using row by (rule stockRow_in_set)
  have key: "stock_secteurId senderRow = ?A" using stockRow_key[OF row] by simp
  have a1: "balance ?A ?i ?final = stock_quantity senderRow - ?Q"
    using balance_addToStock_other[OF ids', of ?A ?B ?i ?i] two
      balance_incrementStock_same[OF row] by simp
  have "balance ?B ?i ?debited = balance ?B ?i (stocks db)"
    using ids mem key two by (intro balance_incrementStock_other) auto
  then have b1: "balance ?B ?i ?final = balance ?B ?i (stocks db) + ?Q"
    by (simp add: balance_addToStock_same)
  have b2: "stockRow ?B ?i ?final \<noteq> None" by (rule stockRow_addToStock_same)
  show ?thesis using res a1 b1 b2 by simp
qed

subsection \<open>A confirmed record leaves the pending lists\<close>

lemma confirmed_leaves_pendingIncomingTransfers:
  assumes "handleConfirmTransfer env transfer db = Inr db'"
  shows "list_all (\<lambda>t. tr_id t \<noteq> tr_id transfer)
           (pendingIncomingTransfers user (stock_transfers db'))"
proof -
  have "stock_transfers db' =
          map (\<lambda>t. if tr_id t = tr_id transfer
                    then t\<lparr>tr_status := Confirmed, tr_confirmedAt := Some (serverTime env)\<rparr>
                    else t) (stock_transfers db)"
    using assms
    by (cases "stockQuery (tr_fromSecteurId transfer) (tr_item transfer) (stocks db)")
       (auto simp: handleConfirmTransfer_def Let_def split: if_splits)
  then show ?thesis
    by (auto simp: pendingIncomingTransfers_def list_all_iff)
qed

lemma confirmed_leaves_pendingAdditions:
  assumes "handleConfirmAddition env addition db = Inr db'"
  shows "list_all (\<lambda>a. add_id a \<noteq> add_id addition) (pendingAdditions (stock_additions db'))"
proof -
  have "stock_additions db' =
          map (\<lambda>a. if add_id a = add_id addition
                    then a\<lparr>add_status := Confirmed, add_confirmedAt := Some (serverTime env)\<rparr>
                    else a) (stock_additions db)"
    using assms by (auto simp: handleConfirmAddition_def Let_def split: if_splits)
  then show ?thesis
    by (auto simp: pendingAdditions_def list_all_iff)
qed

subsection \<open>The page's list of stock rows and the stock check of a transfer\<close>

lemma parseInt_empty: "parseInt [] = None"
  by (simp add: parseInt_def)

lemma stockRow_None_iff:
  "stockRow sec it docs = None \<longleftrightarrow>
     (\<forall>s\<in>set docs. \<not> (stock_secteurId s = sec \<and> stock_item s = it))"
  unfolding stockRow_def by (auto simp: find_None_iff)

lemma stockRow_unique:
  assumes keys: "distinct (map (\<lambda>s. (stock_secteurId s, stock_item s)) docs)"
    and sub: "set xs \<subseteq> set docs"
    and row: "d \<in> set xs" "stock_secteurId d = sec" "stock_item d = it"
  shows "stockRow sec it xs = Some d"
proof (cases "stockRow sec it xs")
  case None
  then show ?thesis using row by (auto simp: stockRow_None_iff)
next
  case (Some e)
  have "e \<in> set docs" "d \<in> set docs"
    using stockRow_in_set[OF Some] row(1) sub by auto
  moreover have "(stock_secteurId e, stock_item e) = (stock_secteurId d, stock_item d)"
    using stockRow_key[OF Some] row by simp
  ultimately have "e = d"
    using keys by (meson distinct_map inj_onD)
  then show ?thesis using Some by simp
qed

lemma set_loadStocks:
  "set (loadStocks getTime isSuperAdmin selectedSecteur user docs) \<subseteq> set docs"
  by (auto simp: loadStocks_def)

lemma listed_loadStocks:
  assumes "d \<in> set docs"
    and "if isSuperAdmin then selectedSecteur = ''all'' \<or> selectedSecteur = stock_secteurId d
         else user_fermeId user = Some (stock_secteurId d)"
  shows "d \<in> set (loadStocks getTime isSuperAdmin selectedSecteur user docs)"
  using assms by (auto simp: loadStocks_def split: if_splits)

lemma stockRow_loadStocks:
  assumes keys: "distinct (map (\<lambda>s. (stock_secteurId s, stock_item s)) docs)"
    and listed: "if isSuperAdmin then selectedSecteur = ''all'' \<or> selectedSecteur = sec
                 else user_fermeId user = Some sec"
  shows "stockRow sec it (loadStocks getTime isSuperAdmin selectedSecteur user docs)
           = stockRow sec it docs"
proof (cases "stockRow sec it docs")
  case None
  then have "stockRow sec it (loadStocks getTime isSuperAdmin selectedSecteur user docs) = None"
    using set_loadStocks[of getTime isSuperAdmin selectedSecteur user docs]
    unfolding stockRow_None_iff by blast
  then show ?thesis using None by simp
next
  case (Some d)
  have d: "d \<in> set docs" "stock_secteurId d = sec" "stock_item d = it"
    using stockRow_in_set[OF Some] stockRow_key[OF Some] by auto
  have "d \<in> set (loadStocks getTime isSuperAdmin selectedSecteur user docs)"
    using d listed by (intro listed_loadStocks) auto
  then show ?thesis
    using stockRow_unique[OF keys set_loadStocks _ d(2,3)] Some by simp
qed

lemma transfer_refused_when_short:
  assumes "parseInt (tf_quantity transferForm) = Some quantity"
    and "available (senderSecteurId isSuperAdmin user transferForm) (tf_item transferForm)
           stocksSnapshot < quantity"
  shows "\<exists>e. handleTransferSubmit isSuperAdmin user transferForm stocksSnapshot env db = Refused e"
proof (cases "senderSecteurId isSuperAdmin user transferForm")
  case None
  show ?thesis using assms None
    by (simp add: handleTransferSubmit_def Let_def find_no_sender available_def)
next
  case (Some f)
  show ?thesis using assms Some
    by (auto simp: handleTransferSubmit_def Let_def find_sender available_def
          balance_def split: option.splits)
qed

lemma insufficient_stock_of_snapshot:
  assumes "parseInt (tf_quantity transferForm) = Some quantity"
    and "available (senderSecteurId isSuperAdmin user transferForm) (tf_item transferForm)
           stocksSnapshot < quantity"
    and "tf_item transferForm \<noteq> []" "tf_quantity transferForm \<noteq> []"
        "tf_toSecteurId transferForm \<noteq> []"
        "isSuperAdmin \<longrightarrow> tf_fromSecteurId transferForm \<noteq> []"
        "senderSecteurId isSuperAdmin user transferForm \<noteq> Some (tf_toSecteurId transferForm)"
        "0 < quantity"
  shows "handleTransferSubmit isSuperAdmin user transferForm stocksSnapshot env db
           = Refused (InsufficientStock
                        (available (senderSecteurId isSuperAdmin user transferForm)
                           (tf_item transferForm) stocksSnapshot)
                        (tf_unit transferForm))"
proof (cases "senderSecteurId isSuperAdmin user transferForm")
  case None
  show ?thesis using assms None
    by (simp add: handleTransferSubmit_def Let_def find_no_sender available_def)
next
  case (Some f)
  show ?thesis using assms Some
    by (auto simp: handleTransferSubmit_def Let_def find_sender available_def
          balance_def split: option.splits)
qed

lemma available_loadStocks:
  assumes keys: "distinct (map (\<lambda>s. (stock_secteurId s, stock_item s)) docs)"
    and listed: "isSuperAdmin \<longrightarrow>
                   selectedSecteur = ''all'' \<or> selectedSecteur = tf_fromSecteurId transferForm"
  shows "available (senderSecteurId isSuperAdmin user transferForm) it
           (loadStocks getTime isSuperAdmin selectedSecteur user docs)
         = available (senderSecteurId isSuperAdmin user transferForm) it docs"
proof (cases "senderSecteurId isSuperAdmin user transferForm")
  case None
  then show ?thesis by (simp add: available_def)
next
  case (Some sec)
  have "if isSuperAdmin then selectedSecteur = ''all'' \<or> selectedSecteur = sec
        else user_fermeId user = Some sec"
    using Some listed by (auto simp: senderSecteurId_def split: if_splits)
  from stockRow_loadStocks[OF keys this]
  show ?thesis using Some by (simp add: available_def balance_def)
qed

subsection \<open>The invariant of the ledger\<close>

lemma nonneg_incrementStock:
  assumes "list_all (\<lambda>s. 0 \<le> stock_quantity s) docs" "0 \<le> n"
  shows "list_all (\<lambda>s. 0 \<le> stock_quantity s) (incrementStock i n t docs)"
  using assms unfolding incrementStock_def by (induction docs) auto

lemma nonneg_decrement_covered:
  assumes ids: "distinct (map stock_id docs)" and mem: "d \<in> set docs"
    and nn: "list_all (\<lambda>s. 0 \<le> stock_quantity s) docs" and cov: "n \<le> stock_quantity d"
  shows "list_all (\<lambda>s. 0 \<le> stock_quantity s) (incrementStock (stock_id d) (- n) t docs)"
proof -
  have "0 \<le> stock_quantity s - n" if "s \<in> set docs" "stock_id s = stock_id d" for s
    using distinct_ids_eq[OF ids that(1) mem that(2)] cov by simp
  then show ?thesis using nn
    by (auto simp: incrementStock_def list_all_iff)
qed

lemma stocks_addToStock_inv:
  assumes "distinct (map stock_id docs)" "list_all (\<lambda>s. 0 \<le> stock_quantity s) docs"
    and "0 \<le> q" "newId env \<notin> stock_id ` set docs"
  shows "distinct (map stock_id (addToStock env sec it q u docs))
       \<and> list_all (\<lambda>s. 0 \<le> stock_quantity s) (addToStock env sec it q u docs)"
proof (cases "stockQuery sec it docs")
  case Nil
  then show ?thesis using assms by (simp add: addToStock_def)
next
  case (Cons d rest)
  then show ?thesis using assms by (simp add: addToStock_def nonneg_incrementStock)
qed

lemma keys_incrementStock [simp]:
  "map (\<lambda>s. (stock_secteurId s, stock_item s)) (incrementStock i n t docs)
     = map (\<lambda>s. (stock_secteurId s, stock_item s)) docs"
  unfolding incrementStock_def by (induction docs) auto

lemma keys_addToStock:
  assumes "distinct (map (\<lambda>s. (stock_secteurId s, stock_item s)) docs)"
  shows "distinct (map (\<lambda>s. (stock_secteurId s, stock_item s)) (addToStock env sec it q u docs))"
proof (cases "stockQuery sec it docs")
  case Nil
  then have "(sec, it) \<notin> (\<lambda>s. (stock_secteurId s, stock_item s)) ` set docs"
    unfolding stockQuery_def by (auto simp: filter_empty_conv)
  then show ?thesis using Nil assms by (simp add: addToStock_def)
next
  case (Cons d rest)
  then show ?thesis using assms by (simp add: addToStock_def)
qed

lemma balance_addToStock_mono:
  assumes "distinct (map stock_id docs)" "0 \<le> q"
  shows "balance sec' it' docs \<le> balance sec' it' (addToStock env sec it q u docs)"
proof (cases "sec' = sec \<and> it' = it")
  case True
  then show ?thesis using assms(2) by (simp add: balance_addToStock_same)
next
  case False
  then show ?thesis using assms(1) by (simp add: balance_addToStock_other)
qed

lemma ledgerInv_credit:
  assumes inv: "ledgerInv db" and q: "0 \<le> q"
    and fresh: "newId env \<notin> stock_id ` set (stocks db)"
  shows "ledgerInv (db\<lparr>stocks := addToStock env sec it q u (stocks db)\<rparr>)"
proof -
  have ids: "distinct (map stock_id (stocks db))"
    and nn: "list_all (\<lambda>s. 0 \<le> stock_quantity s) (stocks db)"
    and keys: "distinct (map (\<lambda>s. (stock_secteurId s, stock_item s)) (stocks db))"
    and cov: "list_all (\<lambda>t. tr_quantity t \<le> balance (tr_fromSecteurId t) (tr_item t) (stocks db))
                (filter (\<lambda>t. tr_status t = Pending) (stock_transfers db))"
    using inv by (simp_all add: ledgerInv_def quantitiesNonNegative_def)
  have a: "distinct (map stock_id (addToStock env sec it q u (stocks db)))
       \<and> list_all (\<lambda>s. 0 \<le> stock_quantity s) (addToStock env sec it q u (stocks db))"
    using ids nn q fresh by (rule stocks_addToStock_inv)
  have b: "distinct (map (\<lambda>s. (stock_secteurId s, stock_item s))
                        (addToStock env sec it q u (stocks db)))"
    using keys by (rule keys_addToStock)
  have c: "list_all (\<lambda>t. tr_quantity t
                      \<le> balance (tr_fromSecteurId t) (tr_item t)
                           (addToStock env sec it q u (stocks db)))
                (filter (\<lambda>t. tr_status t = Pending) (stock_transfers db))"
    unfolding list_all_iff
  proof
    fix t assume "t \<in> set (filter (\<lambda>t. tr_status t = Pending) (stock_transfers db))"
    then have "tr_quantity t \<le> balance (tr_fromSecteurId t) (tr_item t) (stocks db)"
      using cov by (simp add: list_all_iff)
    also have "\<dots> \<le> balance (tr_fromSecteurId t) (tr_item t)
                        (addToStock env sec it q u (stocks db))"
      using ids q by (rule balance_addToStock_mono)
    finally show "tr_quantity t \<le> balance (tr_fromSecteurId t) (tr_item t)
                        (addToStock env sec it q u (stocks db))" .
  qed
  show ?thesis using inv a b c
    by (simp add: ledgerInv_def quantitiesNonNegative_def)
qed

lemma ledgerInv_mark_addition:
  assumes "ledgerInv db"
  shows "ledgerInv (db\<lparr>stock_additions :=
                        map (\<lambda>a. if add_id a = i
                                  then a\<lparr>add_status := Confirmed, add_confirmedAt := c\<rparr>
                                  else a) (stock_additions db)\<rparr>)"
  using assms by (auto simp: ledgerInv_def quantitiesNonNegative_def list_all_iff)

lemma ledgerInv_addStock:
  assumes inv: "ledgerInv db" and fresh: "newId env \<notin> stock_id ` set (stocks db)"
    and readable: "af_quantity addStockForm = [] \<or> parseInt (af_quantity addStockForm) \<noteq> None"
  shows "\<exists>db'. storeAfterSubmit db (handleAddStockSubmit isSuperAdmin user addStockForm env db)
                 = Some db' \<and> ledgerInv db'"
proof (cases "af_quantity addStockForm = []")
  case True
  then show ?thesis using inv by (simp add: handleAddStockSubmit_def storeAfterSubmit_def)
next
  case False
  then obtain quantity where quantity: "parseInt (af_quantity addStockForm) = Some quantity"
    using readable by auto
  have pending: "ledgerInv (db\<lparr>stock_additions := stock_additions db @ [a]\<rparr>)"
    if "0 < add_quantity a" for a
    using inv that by (simp add: ledgerInv_def quantitiesNonNegative_def)
  have direct: "ledgerInv (db\<lparr>stocks := addToStock env sec (af_item addStockForm) quantity
                                           (af_unit addStockForm) (stocks db)\<rparr>)"
    if "0 < quantity" for sec
    using inv _ fresh by (rule ledgerInv_credit) (use that in simp)
  show ?thesis using quantity inv pending direct
    by (simp add: handleAddStockSubmit_def storeAfterSubmit_def split: option.splits)
qed

lemma ledgerInv_confirmAddition:
  assumes inv: "ledgerInv db"
    and mem: "addition \<in> set (pendingAdditions (stock_additions db))"
    and fresh: "newId env \<notin> stock_id ` set (stocks db)"
  shows "ledgerInv (storeAfter db (handleConfirmAddition env addition db))"
proof -
  have stored: "addition \<in> set (stock_additions db)"
    using mem by (simp add: pendingAdditions_def)
  then have "0 < add_quantity addition" using inv by (auto simp: ledgerInv_def list_all_iff)
  then have q: "0 \<le> add_quantity addition" by simp
  let ?db1 = "db\<lparr>stock_additions :=
                   map (\<lambda>a. if add_id a = add_id addition
                             then a\<lparr>add_status := Confirmed,
                                    add_confirmedAt := Some (serverTime env)\<rparr>
                             else a) (stock_additions db)\<rparr>"
  have "ledgerInv ?db1" using inv by (rule ledgerInv_mark_addition)
  moreover have "newId env \<notin> stock_id ` set (stocks ?db1)" using fresh by simp
  ultimately have "ledgerInv (?db1\<lparr>stocks := addToStock env (add_secteurId addition)
                      (add_item addition) (add_quantity addition) (add_unit addition)
                      (stocks ?db1)\<rparr>)"
    using q by (intro ledgerInv_credit)
  then show ?thesis using stored
    by (simp add: handleConfirmAddition_def storeAfter_def Let_def)
qed


lemma createTransfer_cases:
  assumes quantity: "parseInt (tf_quantity transferForm) = Some quantity"
  shows "(\<exists>e. handleTransferSubmit isSuperAdmin user transferForm stocksSnapshot env db
                = Refused e)
       \<or> (\<exists>fromId currentStock.
             senderSecteurId isSuperAdmin user transferForm = Some fromId
             \<and> stockRow fromId (tf_item transferForm) stocksSnapshot = Some currentStock
             \<and> quantity \<le> stock_quantity currentStock \<and> 0 < quantity
             \<and> handleTransferSubmit isSuperAdmin user transferForm stocksSnapshot env db
                 = Stored (db\<lparr>stock_transfers := stock_transfers db @
                      [\<lparr>tr_id = newId env, tr_fromSecteurId = fromId,
                        tr_toSecteurId = tf_toSecteurId transferForm,
                        tr_item = tf_item transferForm, tr_quantity = quantity,
                        tr_unit = tf_unit transferForm, tr_status = Pending,
                        tr_createdAt = Some (serverTime env),
                        tr_confirmedAt = None\<rparr>]\<rparr>))"
proof (cases "senderSecteurId isSuperAdmin user transferForm")
  case None
  show ?thesis using quantity None
    by (simp add: handleTransferSubmit_def Let_def find_no_sender)
next
  case (Some f)
  show ?thesis using quantity Some
    by (auto simp: handleTransferSubmit_def Let_def find_sender split: option.splits)
qed

lemma ledgerInv_new_transfer:
  assumes inv: "ledgerInv db"
    and snapshot: "set stocksSnapshot \<subseteq> set (stocks db)"
    and fresh: "tr_id t \<notin> tr_id ` set (stock_transfers db)"
    and one: "pendingFrom (Some (tr_fromSecteurId t)) (tr_item t) (stock_transfers db) = []"
    and row: "stockRow (tr_fromSecteurId t) (tr_item t) stocksSnapshot = Some currentStock"
    and enough: "tr_quantity t \<le> stock_quantity currentStock" and pos: "0 < tr_quantity t"
  shows "ledgerInv (db\<lparr>stock_transfers := stock_transfers db @ [t]\<rparr>)"
proof -
  have keys: "distinct (map (\<lambda>s. (stock_secteurId s, stock_item s)) (stocks db))"
    using inv by (simp add: ledgerInv_def)
  have "currentStock \<in> set (stocks db)"
    using stockRow_in_set[OF row] snapshot by auto
  then have "stockRow (tr_fromSecteurId t) (tr_item t) (stocks db) = Some currentStock"
    using stockRow_key[OF row] by (intro stockRow_unique[OF keys]) auto
  then have covered: "tr_quantity t \<le> balance (tr_fromSecteurId t) (tr_item t) (stocks db)"
    using enough by (simp add: balance_def)
  have alone: "(tr_fromSecteurId t, tr_item t)
                 \<notin> (\<lambda>t. (tr_fromSecteurId t, tr_item t))
                     ` set (filter (\<lambda>t. tr_status t = Pending) (stock_transfers db))"
    using one by (auto simp: pendingFrom_def filter_empty_conv)
  show ?thesis using inv fresh pos covered alone
    by (simp add: ledgerInv_def quantitiesNonNegative_def)
qed

lemma ledgerInv_createTransfer:
  assumes inv: "ledgerInv db"
    and snapshot: "set stocksSnapshot \<subseteq> set (stocks db)"
    and fresh: "newId env \<notin> tr_id ` set (stock_transfers db)"
    and readable: "tf_quantity transferForm = [] \<or> parseInt (tf_quantity transferForm) \<noteq> None"
    and one: "pendingFrom (senderSecteurId isSuperAdmin user transferForm) (tf_item transferForm)
                (stock_transfers db) = []"
  shows "\<exists>db'. storeAfterSubmit db
                  (handleTransferSubmit isSuperAdmin user transferForm stocksSnapshot env db)
                 = Some db' \<and> ledgerInv db'"
proof (cases "tf_quantity transferForm = []")
  case True
  then show ?thesis using inv by (simp add: handleTransferSubmit_def storeAfterSubmit_def)
next
  case False
  then obtain quantity where quantity: "parseInt (tf_quantity transferForm) = Some quantity"
    using readable by auto
  from createTransfer_cases[OF quantity, of isSuperAdmin user stocksSnapshot env db]
  show ?thesis
  proof (elim disjE exE conjE)
    fix e
    assume "handleTransferSubmit isSuperAdmin user transferForm stocksSnapshot env db = Refused e"
    then show ?thesis using inv by (simp add: storeAfterSubmit_def)
  next
    fix fromId currentStock
    let ?t = "\<lparr>tr_id = newId env, tr_fromSecteurId = fromId,
                tr_toSecteurId = tf_toSecteurId transferForm,
                tr_item = tf_item transferForm, tr_quantity = quantity,
                tr_unit = tf_unit transferForm, tr_status = Pending,
                tr_createdAt = Some (serverTime env), tr_confirmedAt = None\<rparr>"
    assume sender: "senderSecteurId isSuperAdmin user transferForm = Some fromId"
      and row: "stockRow fromId (tf_item transferForm) stocksSnapshot = Some currentStock"
      and enough: "quantity \<le> stock_quantity currentStock" and pos: "0 < quantity"
      and result: "handleTransferSubmit isSuperAdmin user transferForm stocksSnapshot env db
                     = Stored (db\<lparr>stock_transfers := stock_transfers db @ [?t]\<rparr>)"
    have "ledgerInv (db\<lparr>stock_transfers := stock_transfers db @ [?t]\<rparr>)"
      using inv snapshot
    proof (rule ledgerInv_new_transfer)
      show "tr_id ?t \<notin> tr_id ` set (stock_transfers db)" using fresh by simp
      show "pendingFrom (Some (tr_fromSecteurId ?t)) (tr_item ?t) (stock_transfers db) = []"
        using one sender by simp
      show "stockRow (tr_fromSecteurId ?t) (tr_item ?t) stocksSnapshot = Some currentStock"
        using row by simp
      show "tr_quantity ?t \<le> stock_quantity currentStock" using enough by simp
      show "0 < tr_quantity ?t" using pos by simp
    qed
    then show ?thesis using result by (simp add: storeAfterSubmit_def)
  qed
qed

lemma pending_after_mark:
  "filter (\<lambda>t. tr_status t = Pending)
     (map (\<lambda>t. if tr_id t = i then t\<lparr>tr_status := Confirmed, tr_confirmedAt := c\<rparr> else t) ts)
   = filter (\<lambda>t. tr_id t \<noteq> i) (filter (\<lambda>t. tr_status t = Pending) ts)"
  by (induction ts) auto

lemma ids_after_mark:
  "map tr_id (map (\<lambda>t. if tr_id t = i then t\<lparr>tr_status := Confirmed, tr_confirmedAt := c\<rparr>
                        else t) ts)
   = map tr_id ts"
  by (induction ts) auto

lemma positive_after_mark:
  "list_all (\<lambda>t. 0 < tr_quantity t) ts \<Longrightarrow>
   list_all (\<lambda>t. 0 < tr_quantity t)
     (map (\<lambda>t. if tr_id t = i then t\<lparr>tr_status := Confirmed, tr_confirmedAt := c\<rparr> else t) ts)"
  by (induction ts) auto

lemma ledgerInv_debit:
  assumes inv: "ledgerInv db"
    and mem: "transfer \<in> set (filter (\<lambda>t. tr_status t = Pending) (stock_transfers db))"
    and row: "stockRow (tr_fromSecteurId transfer) (tr_item transfer) (stocks db) = Some d"
  shows "ledgerInv (db\<lparr>stock_transfers :=
                        map (\<lambda>t. if tr_id t = tr_id transfer
                                  then t\<lparr>tr_status := Confirmed, tr_confirmedAt := c\<rparr>
                                  else t) (stock_transfers db),
                      stocks := incrementStock (stock_id d) (- tr_quantity transfer) time
                                  (stocks db)\<rparr>)"
proof -
  let ?key = "\<lambda>t. (tr_fromSecteurId t, tr_item t)"
  let ?pending = "filter (\<lambda>t. tr_status t = Pending) (stock_transfers db)"
  let ?debited = "incrementStock (stock_id d) (- tr_quantity transfer) time (stocks db)"
  have ids: "distinct (map stock_id (stocks db))"
    and nn: "list_all (\<lambda>s. 0 \<le> stock_quantity s) (stocks db)"
    and cov: "list_all (\<lambda>t. tr_quantity t \<le> balance (tr_fromSecteurId t) (tr_item t) (stocks db))
                ?pending"
    and alone: "distinct (map ?key ?pending)"
    and pos: "list_all (\<lambda>t. 0 < tr_quantity t) (stock_transfers db)"
    using inv by (simp_all add: ledgerInv_def quantitiesNonNegative_def)
  have d: "d \<in> set (stocks db)" "stock_secteurId d = tr_fromSecteurId transfer"
    "stock_item d = tr_item transfer"
    using stockRow_in_set[OF row] stockRow_key[OF row] by auto
  have "tr_quantity transfer
          \<le> balance (tr_fromSecteurId transfer) (tr_item transfer) (stocks db)"
    using cov mem by (simp add: list_all_iff)
  then have enough: "tr_quantity transfer \<le> stock_quantity d"
    using row by (simp add: balance_def)
  have a: "list_all (\<lambda>s. 0 \<le> stock_quantity s) ?debited"
    using ids d(1) nn enough by (rule nonneg_decrement_covered)
  have b: "list_all (\<lambda>t. tr_quantity t \<le> balance (tr_fromSecteurId t) (tr_item t) ?debited)
             (filter (\<lambda>t. tr_id t \<noteq> tr_id transfer) ?pending)"
    unfolding list_all_iff
  proof
    fix t assume "t \<in> set (filter (\<lambda>t. tr_id t \<noteq> tr_id transfer) ?pending)"
    then have t: "t \<in> set ?pending" "t \<noteq> transfer" by auto
    have "?key t \<noteq> ?key transfer"
      using alone t mem by (meson distinct_map inj_onD)
    then have "\<not> (stock_secteurId d = tr_fromSecteurId t \<and> stock_item d = tr_item t)"
      using d by auto
    with ids d(1)
    have "balance (tr_fromSecteurId t) (tr_item t) ?debited
            = balance (tr_fromSecteurId t) (tr_item t) (stocks db)"
      by (rule balance_incrementStock_other)
    then show "tr_quantity t \<le> balance (tr_fromSecteurId t) (tr_item t) ?debited"
      using cov t(1) by (simp add: list_all_iff)
  qed
  have e: "distinct (map ?key (filter (\<lambda>t. tr_id t \<noteq> tr_id transfer) ?pending))"
    using alone by (rule distinct_map_filter)
  have f: "distinct (map tr_id
                      (map (\<lambda>t. if tr_id t = tr_id transfer
                                then t\<lparr>tr_status := Confirmed, tr_confirmedAt := c\<rparr>
                                else t) (stock_transfers db)))"
    using inv by (simp only: ids_after_mark) (simp add: ledgerInv_def)
  show ?thesis using inv a b e f positive_after_mark[OF pos]
    by (simp add: ledgerInv_def quantitiesNonNegative_def pending_after_mark)
qed

lemma ledgerInv_confirmTransfer:
  assumes inv: "ledgerInv db"
    and mem: "transfer \<in> set (pendingIncomingTransfers user (stock_transfers db))"
    and fresh: "newId env \<notin> stock_id ` set (stocks db)"
  shows "ledgerInv (storeAfter db (handleConfirmTransfer env transfer db))"
proof -
  let ?A = "tr_fromSecteurId transfer" and ?B = "tr_toSecteurId transfer"
  let ?i = "tr_item transfer" and ?Q = "tr_quantity transfer"
  have pending: "transfer \<in> set (filter (\<lambda>t. tr_status t = Pending) (stock_transfers db))"
    using mem by (auto simp: pendingIncomingTransfers_def)
  then have stored: "transfer \<in> set (stock_transfers db)" by simp
  have pos: "0 < ?Q" using inv stored by (auto simp: ledgerInv_def list_all_iff)
  have "?Q \<le> balance ?A ?i (stocks db)"
    using inv pending by (simp add: ledgerInv_def list_all_iff)
  then obtain d where row: "stockRow ?A ?i (stocks db) = Some d"
    using pos by (cases "stockRow ?A ?i (stocks db)") (auto simp: balance_def)
  then obtain rest where query: "stockQuery ?A ?i (stocks db) = d # rest"
    by (auto simp: stockRow_stockQuery split: list.splits)
  let ?db2 = "db\<lparr>stock_transfers :=
                    map (\<lambda>t. if tr_id t = tr_id transfer
                              then t\<lparr>tr_status := Confirmed,
                                     tr_confirmedAt := Some (serverTime env)\<rparr>
                              else t) (stock_transfers db),
                  stocks := incrementStock (stock_id d) (- ?Q) (now env) (stocks db)\<rparr>"
  have "ledgerInv ?db2" using inv pending row by (rule ledgerInv_debit)
  moreover have "newId env \<notin> stock_id ` set (stocks ?db2)"
    using fresh by (simp flip: set_map)
  ultimately have "ledgerInv (?db2\<lparr>stocks := addToStock env ?B ?i ?Q (tr_unit transfer)
                                               (stocks ?db2)\<rparr>)"
    using pos by (intro ledgerInv_credit) simp_all
  moreover have "handleConfirmTransfer env transfer db
                   = Inr (?db2\<lparr>stocks := addToStock env ?B ?i ?Q (tr_unit transfer)
                                              (stocks ?db2)\<rparr>)"
    using stored query by (simp add: handleConfirmTransfer_def Let_def)
  ultimately show ?thesis by (simp add: storeAfter_def)
qed

lemma ledgerInv_step:
  assumes "ledgerInv db" "offered op db" "readable op" "oneAtATime op db"
  shows "\<exists>db'. perform op db = Some db' \<and> ledgerInv db'"
proof (cases op)
  case (AddStock sa u f env)
  then show ?thesis using assms by (simp add: ledgerInv_addStock)
next
  case (ConfirmAddition a env)
  then show ?thesis using assms by (simp add: ledgerInv_confirmAddition)
next
  case (CreateTransfer sa u f snap env)
  then show ?thesis using assms by (simp add: ledgerInv_createTransfer)
next
  case (ConfirmTransfer u t env)
  then show ?thesis using assms by (auto intro: ledgerInv_confirmTransfer)
qed

lemma ledgerInv_run:
  "ledgerInv db \<Longrightarrow> offeredRun ops db \<Longrightarrow> list_all readable ops \<Longrightarrow> oneAtATimeRun ops db \<Longrightarrow>
   \<exists>db'. runOps ops db = Some db' \<and> ledgerInv db'"
proof (induction ops arbitrary: db)
  case Nil
  then show ?case by simp
next
  case (Cons op ops)
  then obtain db1 where step: "perform op db = Some db1" "ledgerInv db1"
    using ledgerInv_step[of db op] by auto
  then show ?case using Cons by simp
qed

subsection \<open>Unfolding the handlers on the example data\<close>

lemmas demo_defs = emptyStore_def envWithId_def user_A_def user_B_def add_ten_def send_ten_def
  ten_in_A_def pending_ten_def

lemmas parse_defs = parseInt_def digit_def isWhiteSpace_def

lemmas handler_defs = handleAddStockSubmit_def handleTransferSubmit_def
  handleConfirmTransfer_def handleConfirmAddition_def storeAfter_def storeAfterSubmit_def
  senderSecteurId_def parse_defs
  addToStock_def stockQuery_def incrementStock_def pendingIncomingTransfers_def
  pendingAdditions_def stockRow_def Let_def

lemmas confirmed_defs = confirmed_db_def confirmed_transfer_def confirmed_addition_def
  demo_transfer_def demo_addition_def demo_row_def demo_row_B_def demo_env_def

lemmas offered_defs = offered_db_def confirmed_transfer_def confirmed_addition_def
  demo_transfer_def demo_addition_def demo_row_def demo_row_B_def demo_env_def pending_ten_def
  user_B_def

lemmas short_defs = fifteen_from_A_def super_admin_def demo_getTime_def demo_db2_def
  demo_row_def demo_row_B_def demo_transfer_def demo_addition_def demo_env_def loadStocks_def

lemmas run_defs = demo_defs handler_defs ledgerInv_def quantitiesNonNegative_def
  quantitiesAfter_def pendingFrom_def

section \<open>The claims about the stock ledger\<close>

text \<open>
  C1. Confirming a transfer of quantity \<open>Q\<close> from sector \<open>A\<close>, whose stock row for
  the item holds \<open>a\<close>, to another sector \<open>B\<close> with balance \<open>b\<close> (0 without a
  row) succeeds and leaves \<open>A\<close> with \<open>a - Q\<close> and \<open>B\<close> with a row and the
  balance \<open>b + Q\<close>, so that the two balances together are unchanged. The handler does
  not read the transfer's status, so this holds in particular for every pending transfer.
\<close>

theorem confirmTransfer_moves_quantity:
  assumes ids: "distinct (map stock_id (stocks db))"
    and known: "tr_id transfer \<in> tr_id ` set (stock_transfers db)"
    and two: "tr_fromSecteurId transfer \<noteq> tr_toSecteurId transfer"
    and row: "stockRow (tr_fromSecteurId transfer) (tr_item transfer) (stocks db) = Some senderRow"
  shows "\<exists>db'. handleConfirmTransfer env transfer db = Inr db' \<and>
           balance (tr_fromSecteurId transfer) (tr_item transfer) (stocks db')
             = stock_quantity senderRow - tr_quantity transfer \<and>
           balance (tr_toSecteurId transfer) (tr_item transfer) (stocks db')
             = balance (tr_toSecteurId transfer) (tr_item transfer) (stocks db)
               + tr_quantity transfer \<and>
           stockRow (tr_toSecteurId transfer) (tr_item transfer) (stocks db') \<noteq> None \<and>
           balance (tr_fromSecteurId transfer) (tr_item transfer) (stocks db')
             + balance (tr_toSecteurId transfer) (tr_item transfer) (stocks db')
             = balance (tr_fromSecteurId transfer) (tr_item transfer) (stocks db)
               + balance (tr_toSecteurId transfer) (tr_item transfer) (stocks db)"
proof -
  obtain db' where
    ok: "handleConfirmTransfer env transfer db = Inr db'"
    and debit: "balance (tr_fromSecteurId transfer) (tr_item transfer) (stocks db')
                  = stock_quantity senderRow - tr_quantity transfer"
    and credit: "balance (tr_toSecteurId transfer) (tr_item transfer) (stocks db')
                   = balance (tr_toSecteurId transfer) (tr_item transfer) (stocks db)
                     + tr_quantity transfer"
    and created: "stockRow (tr_toSecteurId transfer) (tr_item transfer) (stocks db') \<noteq> None"
    using balances_confirmTransfer [OF assms] by blast
  have before: "balance (tr_fromSecteurId transfer) (tr_item transfer) (stocks db)
                  = stock_quantity senderRow"
    using row by (simp add: balance_def)
  have "balance (tr_fromSecteurId transfer) (tr_item transfer) (stocks db')
          + balance (tr_toSecteurId transfer) (tr_item transfer) (stocks db')
        = balance (tr_fromSecteurId transfer) (tr_item transfer) (stocks db)
          + balance (tr_toSecteurId transfer) (tr_item transfer) (stocks db)"
    using debit credit before by simp
  then show ?thesis using ok debit credit created by blast
qed

theorem confirmTransfer_moves_quantity_witness:
  "distinct (map stock_id (stocks demo_db)) \<and>
   tr_id demo_transfer \<in> tr_id ` set (stock_transfers demo_db) \<and>
   tr_fromSecteurId demo_transfer \<noteq> tr_toSecteurId demo_transfer \<and>
   stockRow ''A'' ''ciment'' (stocks demo_db) = Some demo_row \<and>
   (\<exists>db'. handleConfirmTransfer demo_env demo_transfer demo_db = Inr db' \<and>
          balance ''A'' ''ciment'' (stocks db') = 6 \<and>
          balance ''B'' ''ciment'' (stocks db') = 4)"
  using confirmTransfer_moves_quantity [of demo_db demo_transfer demo_row demo_env]
  by (auto simp: demo_db_def demo_transfer_def demo_row_def stockRow_def balance_def)

text \<open>
  C2 says that confirming a transfer or an addition that is already confirmed fails and
  leaves the balances alone. It does not: here both records are confirmed, both calls
  succeed, and the quantities 4 and 5 are applied to the rows holding 10 and 1.
\<close>

theorem second_confirmation_counterexample:
  "tr_status confirmed_transfer = Confirmed \<and>
   confirmed_transfer \<in> set (stock_transfers confirmed_db) \<and>
   add_status confirmed_addition = Confirmed \<and>
   confirmed_addition \<in> set (stock_additions confirmed_db) \<and>
   map stock_quantity (stocks confirmed_db) = [10, 1] \<and>
   map stock_quantity
     (stocks (storeAfter confirmed_db
        (handleConfirmTransfer demo_env confirmed_transfer confirmed_db))) = [6, 5] \<and>
   map stock_quantity
     (stocks (storeAfter confirmed_db
        (handleConfirmAddition demo_env confirmed_addition confirmed_db))) = [15, 1] \<and>
   isl (handleConfirmTransfer demo_env confirmed_transfer confirmed_db) = False \<and>
   isl (handleConfirmAddition demo_env confirmed_addition confirmed_db) = False"
  by (simp add: confirmed_defs handler_defs)

text \<open>
  C2, amended. The handlers do not read the status and have no state error. Confirming an
  addition that is stored as confirmed succeeds and adds its quantity to the sector's
  balance once more; confirming a transfer that is stored as confirmed, between two sectors
  of which the sender has a row, succeeds and moves the quantity once more. What keeps a
  record from being confirmed twice is the page: the confirm buttons are drawn for the
  records of \<open>pendingIncomingTransfers\<close> and \<open>pendingAdditions\<close> only, and once
  \<open>handleConfirmTransfer\<close> or \<open>handleConfirmAddition\<close> has succeeded on a record, no
  record with its id is in the list computed from the store the handler leaves.
\<close>

theorem confirmation_does_not_read_status:
  assumes ids: "distinct (map stock_id (stocks db))"
  shows "(addition \<in> set (stock_additions db) \<and> add_status addition = Confirmed \<longrightarrow>
           (\<exists>db'. handleConfirmAddition env addition db = Inr db' \<and>
              balance (add_secteurId addition) (add_item addition) (stocks db')
                = balance (add_secteurId addition) (add_item addition) (stocks db)
                  + add_quantity addition))
       \<and> (transfer \<in> set (stock_transfers db) \<and> tr_status transfer = Confirmed \<and>
          tr_fromSecteurId transfer \<noteq> tr_toSecteurId transfer \<and>
          stockRow (tr_fromSecteurId transfer) (tr_item transfer) (stocks db) = Some senderRow
          \<longrightarrow>
           (\<exists>db'. handleConfirmTransfer env transfer db = Inr db' \<and>
              balance (tr_fromSecteurId transfer) (tr_item transfer) (stocks db')
                = stock_quantity senderRow - tr_quantity transfer \<and>
              balance (tr_toSecteurId transfer) (tr_item transfer) (stocks db')
                = balance (tr_toSecteurId transfer) (tr_item transfer) (stocks db)
                  + tr_quantity transfer))
       \<and> (handleConfirmTransfer env anyTransfer db = Inr afterTransfer \<longrightarrow>
            list_all (\<lambda>t. tr_id t \<noteq> tr_id anyTransfer)
              (pendingIncomingTransfers user (stock_transfers afterTransfer)))
       \<and> (handleConfirmAddition env anyAddition db = Inr afterAddition \<longrightarrow>
            list_all (\<lambda>a. add_id a \<noteq> add_id anyAddition)
              (pendingAdditions (stock_additions afterAddition)))"
proof (intro conjI impI)
  assume "addition \<in> set (stock_additions db) \<and> add_status addition = Confirmed"
  then have "add_id addition \<in> add_id ` set (stock_additions db)" by auto
  then show "\<exists>db'. handleConfirmAddition env addition db = Inr db' \<and>
              balance (add_secteurId addition) (add_item addition) (stocks db')
                = balance (add_secteurId addition) (add_item addition) (stocks db)
                  + add_quantity addition"
    by (rule balance_confirmAddition)
next
  assume h: "transfer \<in> set (stock_transfers db) \<and> tr_status transfer = Confirmed \<and>
          tr_fromSecteurId transfer \<noteq> tr_toSecteurId transfer \<and>
          stockRow (tr_fromSecteurId transfer) (tr_item transfer) (stocks db) = Some senderRow"
  then have "tr_id transfer \<in> tr_id ` set (stock_transfers db)" by auto
  from balances_confirmTransfer[OF ids this, of senderRow env] h
  show "\<exists>db'. handleConfirmTransfer env transfer db = Inr db' \<and>
              balance (tr_fromSecteurId transfer) (tr_item transfer) (stocks db')
                = stock_quantity senderRow - tr_quantity transfer \<and>
              balance (tr_toSecteurId transfer) (tr_item transfer) (stocks db')
                = balance (tr_toSecteurId transfer) (tr_item transfer) (stocks db)
                  + tr_quantity transfer"
    by auto
next
  assume "handleConfirmTransfer env anyTransfer db = Inr afterTransfer"
  then show "list_all (\<lambda>t. tr_id t \<noteq> tr_id anyTransfer)
              (pendingIncomingTransfers user (stock_transfers afterTransfer))"
    by (rule confirmed_leaves_pendingIncomingTransfers)
next
  assume "handleConfirmAddition env anyAddition db = Inr afterAddition"
  then show "list_all (\<lambda>a. add_id a \<noteq> add_id anyAddition)
              (pendingAdditions (stock_additions afterAddition))"
    by (rule confirmed_leaves_pendingAdditions)
qed

theorem confirmation_does_not_read_status_witness:
  "distinct (map stock_id (stocks offered_db)) \<and>
   confirmed_addition \<in> set (stock_additions offered_db) \<and>
   add_status confirmed_addition = Confirmed \<and>
   confirmed_transfer \<in> set (stock_transfers offered_db) \<and>
   tr_status confirmed_transfer = Confirmed \<and>
   (\<exists>db'. handleConfirmAddition demo_env confirmed_addition offered_db = Inr db' \<and>
      balance ''A'' ''ciment'' (stocks db') = 15) \<and>
   (\<exists>db'. handleConfirmTransfer demo_env confirmed_transfer offered_db = Inr db' \<and>
      balance ''A'' ''ciment'' (stocks db') = 6 \<and> balance ''B'' ''ciment'' (stocks db') = 5) \<and>
   map tr_id (pendingIncomingTransfers user_B (stock_transfers offered_db)) = [''t2''] \<and>
   isl (handleConfirmTransfer demo_env (pending_ten ''t2'') offered_db) = False \<and>
   list_all (\<lambda>t. tr_id t \<noteq> ''t2'')
     (pendingIncomingTransfers user_B (stock_transfers
        (storeAfter offered_db
           (handleConfirmTransfer demo_env (pending_ten ''t2'') offered_db)))) \<and>
   map add_id (pendingAdditions (stock_additions offered_db)) = [''a2''] \<and>
   isl (handleConfirmAddition demo_env (demo_addition\<lparr>add_id := ''a2''\<rparr>) offered_db) = False \<and>
   list_all (\<lambda>a. add_id a \<noteq> ''a2'')
     (pendingAdditions (stock_additions
        (storeAfter offered_db
           (handleConfirmAddition demo_env (demo_addition\<lparr>add_id := ''a2''\<rparr>) offered_db))))"
proof -
  let ?dbT = "storeAfter offered_db (handleConfirmTransfer demo_env (pending_ten ''t2'') offered_db)"
  let ?dbA = "storeAfter offered_db
                (handleConfirmAddition demo_env (demo_addition\<lparr>add_id := ''a2''\<rparr>) offered_db)"
  have ids: "distinct (map stock_id (stocks offered_db))"
    by (simp add: offered_defs)
  have a: "confirmed_addition \<in> set (stock_additions offered_db) \<and>
           add_status confirmed_addition = Confirmed"
    by (simp add: offered_defs)
  have t: "confirmed_transfer \<in> set (stock_transfers offered_db) \<and>
           tr_status confirmed_transfer = Confirmed \<and>
           tr_fromSecteurId confirmed_transfer \<noteq> tr_toSecteurId confirmed_transfer \<and>
           stockRow (tr_fromSecteurId confirmed_transfer) (tr_item confirmed_transfer)
             (stocks offered_db) = Some demo_row"
    by (simp add: offered_defs stockRow_def)
  have dbT: "handleConfirmTransfer demo_env (pending_ten ''t2'') offered_db = Inr ?dbT"
    by (simp add: offered_defs handler_defs)
  have dbA: "handleConfirmAddition demo_env (demo_addition\<lparr>add_id := ''a2''\<rparr>) offered_db
               = Inr ?dbA"
    by (simp add: offered_defs handler_defs)
  note c = confirmation_does_not_read_status
             [OF ids, of confirmed_addition demo_env confirmed_transfer demo_row
                "pending_ten ''t2''" ?dbT user_B "demo_addition\<lparr>add_id := ''a2''\<rparr>" ?dbA]
  have "\<exists>db'. handleConfirmAddition demo_env confirmed_addition offered_db = Inr db' \<and>
      balance ''A'' ''ciment'' (stocks db') = 15"
    using c [THEN conjunct1, rule_format, OF a]
    by (auto simp: offered_defs balance_def stockRow_def)
  moreover
  have "\<exists>db'. handleConfirmTransfer demo_env confirmed_transfer offered_db = Inr db' \<and>
      balance ''A'' ''ciment'' (stocks db') = 6 \<and> balance ''B'' ''ciment'' (stocks db') = 5"
    using c [THEN conjunct2, THEN conjunct1, rule_format, OF t]
    by (auto simp: offered_defs balance_def stockRow_def)
  moreover
  have "list_all (\<lambda>t. tr_id t \<noteq> ''t2'')
          (pendingIncomingTransfers user_B (stock_transfers ?dbT))"
    using c [THEN conjunct2, THEN conjunct2, THEN conjunct1, rule_format, OF dbT]
    by (simp add: pending_ten_def)
  moreover
  have "list_all (\<lambda>a. add_id a \<noteq> ''a2'') (pendingAdditions (stock_additions ?dbA))"
    using c [THEN conjunct2, THEN conjunct2, THEN conjunct2, rule_format, OF dbA]
    by simp
  moreover have "map tr_id (pendingIncomingTransfers user_B (stock_transfers offered_db)) = [''t2'']"
    by (simp add: offered_defs handler_defs)
  moreover have "map add_id (pendingAdditions (stock_additions offered_db)) = [''a2'']"
    by (simp add: offered_defs handler_defs)
  moreover have "isl (handleConfirmTransfer demo_env (pending_ten ''t2'') offered_db) = False"
    by (subst dbT) simp
  moreover have "isl (handleConfirmAddition demo_env (demo_addition\<lparr>add_id := ''a2''\<rparr>) offered_db)
                   = False"
    by (subst dbA) simp
  ultimately show ?thesis using ids a t by blast
qed

text \<open>
  C3 says that a request for more than the sender holds fails with the insufficient stock
  error and that the amount the error reports is the sender's true current quantity. The
  handler does not ask the store: it looks the sender's row up in the page's list of stock
  rows, which for a super admin holds the rows of the sector chosen in the page's filter.
  Here the store has 10 for sector A, the filter is set to sector B, and a super admin's
  request for 15 from A to B is refused with "Stock disponible: 0".
\<close>

theorem insufficient_stock_counterexample:
  "stocks demo_db2 = [demo_row, demo_row_B] \<and>
   loadStocks demo_getTime True ''B'' super_admin (stocks demo_db2) = [demo_row_B] \<and>
   parseInt (tf_quantity fifteen_from_A) = Some 15 \<and>
   balance ''A'' ''ciment'' (stocks demo_db2) = 10 \<and>
   handleTransferSubmit True super_admin fifteen_from_A
       (loadStocks demo_getTime True ''B'' super_admin (stocks demo_db2)) demo_env demo_db2
     = Refused (InsufficientStock 0 ''sac'')"
  by (simp add: short_defs handler_defs balance_def)

text \<open>
  C3, amended. Let the quantity be the integer that \<open>parseInt\<close> reads from the
  quantity field. A request for more than the quantity of the sender's row in the page's
  list of stock rows (0 without a row) is refused, whatever else the form holds: the
  handler writes nothing. When the request passes the checks that come first (item and
  sectors filled in, two different sectors, a positive quantity), it is refused with the
  insufficient stock error, and the amount reported is that quantity of the list. When
  moreover the list is what the page loads from the store as it is now, the sender's
  sector is in the load (always for a sector admin; for a super admin with the filter on
  all sectors or on the sender's) and the store has one row for a sector and an item, a
  request for more than the sender's quantity in the store is refused with the
  insufficient stock error and the amount reported is the sender's quantity in the store.
  Nothing is said of a text from which \<open>parseInt\<close> reads no number.
\<close>

theorem insufficient_stock_reported:
  assumes quantity: "parseInt (tf_quantity transferForm) = Some quantity"
  shows "(available (senderSecteurId isSuperAdmin user transferForm) (tf_item transferForm)
            stocksSnapshot < quantity
          \<longrightarrow> (\<exists>e. handleTransferSubmit isSuperAdmin user transferForm stocksSnapshot env db
                      = Refused e))
       \<and> (tf_item transferForm \<noteq> [] \<and> tf_toSecteurId transferForm \<noteq> []
            \<and> (isSuperAdmin \<longrightarrow> tf_fromSecteurId transferForm \<noteq> [])
            \<and> senderSecteurId isSuperAdmin user transferForm \<noteq> Some (tf_toSecteurId transferForm)
            \<and> 0 < quantity
            \<and> available (senderSecteurId isSuperAdmin user transferForm) (tf_item transferForm)
                 stocksSnapshot < quantity
          \<longrightarrow> handleTransferSubmit isSuperAdmin user transferForm stocksSnapshot env db
                = Refused (InsufficientStock
                             (available (senderSecteurId isSuperAdmin user transferForm)
                                (tf_item transferForm) stocksSnapshot)
                             (tf_unit transferForm)))
       \<and> (tf_item transferForm \<noteq> [] \<and> tf_toSecteurId transferForm \<noteq> []
            \<and> (isSuperAdmin \<longrightarrow> tf_fromSecteurId transferForm \<noteq> [])
            \<and> senderSecteurId isSuperAdmin user transferForm \<noteq> Some (tf_toSecteurId transferForm)
            \<and> 0 < quantity
            \<and> distinct (map (\<lambda>s. (stock_secteurId s, stock_item s)) (stocks db))
            \<and> (isSuperAdmin \<longrightarrow> selectedSecteur = ''all''
                                   \<or> selectedSecteur = tf_fromSecteurId transferForm)
            \<and> available (senderSecteurId isSuperAdmin user transferForm) (tf_item transferForm)
                 (stocks db) < quantity
          \<longrightarrow> handleTransferSubmit isSuperAdmin user transferForm
                  (loadStocks getTime isSuperAdmin selectedSecteur user (stocks db)) env db
                = Refused (InsufficientStock
                             (available (senderSecteurId isSuperAdmin user transferForm)
                                (tf_item transferForm) (stocks db))
                             (tf_unit transferForm)))"
proof -
  have filled: "tf_quantity transferForm \<noteq> []"
    using quantity parseInt_empty by auto
  let ?sender = "senderSecteurId isSuperAdmin user transferForm"
  let ?loaded = "loadStocks getTime isSuperAdmin selectedSecteur user (stocks db)"
  have general: "handleTransferSubmit isSuperAdmin user transferForm snapshot env db
                   = Refused (InsufficientStock (available ?sender (tf_item transferForm) snapshot)
                                (tf_unit transferForm))"
    if "tf_item transferForm \<noteq> []" "tf_toSecteurId transferForm \<noteq> []"
       "isSuperAdmin \<longrightarrow> tf_fromSecteurId transferForm \<noteq> []"
       "?sender \<noteq> Some (tf_toSecteurId transferForm)" "0 < quantity"
       "available ?sender (tf_item transferForm) snapshot < quantity" for snapshot
    using insufficient_stock_of_snapshot[OF quantity that(6) that(1) filled that(2-5)] .
  have loaded: "available ?sender (tf_item transferForm) ?loaded
                  = available ?sender (tf_item transferForm) (stocks db)"
    if "distinct (map (\<lambda>s. (stock_secteurId s, stock_item s)) (stocks db))"
       "isSuperAdmin \<longrightarrow> selectedSecteur = ''all''
                            \<or> selectedSecteur = tf_fromSecteurId transferForm"
    using that by (rule available_loadStocks)
  show ?thesis
  proof (intro conjI impI)
    assume "available ?sender (tf_item transferForm) stocksSnapshot < quantity"
    with quantity
    show "\<exists>e. handleTransferSubmit isSuperAdmin user transferForm stocksSnapshot env db
                 = Refused e"
      by (rule transfer_refused_when_short)
  next
    assume "tf_item transferForm \<noteq> [] \<and> tf_toSecteurId transferForm \<noteq> []
            \<and> (isSuperAdmin \<longrightarrow> tf_fromSecteurId transferForm \<noteq> [])
            \<and> ?sender \<noteq> Some (tf_toSecteurId transferForm)
            \<and> 0 < quantity
            \<and> available ?sender (tf_item transferForm) stocksSnapshot < quantity"
    then show "handleTransferSubmit isSuperAdmin user transferForm stocksSnapshot env db
                = Refused (InsufficientStock
                             (available ?sender (tf_item transferForm) stocksSnapshot)
                             (tf_unit transferForm))"
      by (intro general) auto
  next
    assume h: "tf_item transferForm \<noteq> [] \<and> tf_toSecteurId transferForm \<noteq> []
            \<and> (isSuperAdmin \<longrightarrow> tf_fromSecteurId transferForm \<noteq> [])
            \<and> ?sender \<noteq> Some (tf_toSecteurId transferForm)
            \<and> 0 < quantity
            \<and> distinct (map (\<lambda>s. (stock_secteurId s, stock_item s)) (stocks db))
            \<and> (isSuperAdmin \<longrightarrow> selectedSecteur = ''all''
                                   \<or> selectedSecteur = tf_fromSecteurId transferForm)
            \<and> available ?sender (tf_item transferForm) (stocks db) < quantity"
    then have eq: "available ?sender (tf_item transferForm) ?loaded
                     = available ?sender (tf_item transferForm) (stocks db)"
      by (intro loaded) auto
    have "handleTransferSubmit isSuperAdmin user transferForm ?loaded env db
            = Refused (InsufficientStock (available ?sender (tf_item transferForm) ?loaded)
                         (tf_unit transferForm))"
      using h eq by (intro general) auto
    then show "handleTransferSubmit isSuperAdmin user transferForm ?loaded env db
                = Refused (InsufficientStock
                             (available ?sender (tf_item transferForm) (stocks db))
                             (tf_unit transferForm))"
      using eq by simp
  qed
qed

theorem insufficient_stock_reported_witness:
  "parseInt (tf_quantity fifteen_from_A) = Some 15 \<and>
   available (senderSecteurId True super_admin fifteen_from_A) ''ciment'' (stocks demo_db2) = 10 \<and>
   distinct (map (\<lambda>s. (stock_secteurId s, stock_item s)) (stocks demo_db2)) \<and>
   handleTransferSubmit True super_admin fifteen_from_A
       (loadStocks demo_getTime True ''A'' super_admin (stocks demo_db2)) demo_env demo_db2
     = Refused (InsufficientStock 10 ''sac'') \<and>
   handleTransferSubmit True super_admin fifteen_from_A [demo_row_B] demo_env demo_db2
     = Refused (InsufficientStock 0 ''sac'') \<and>
   (\<exists>e. handleTransferSubmit True super_admin fifteen_from_A [demo_row_B] demo_env demo_db2
           = Refused e)"
proof -
  have q: "parseInt (tf_quantity fifteen_from_A) = Some 15"
    by (simp add: short_defs parse_defs)
  have a: "available (senderSecteurId True super_admin fifteen_from_A) ''ciment''
             (stocks demo_db2) = 10"
    by (simp add: short_defs senderSecteurId_def available_def balance_def stockRow_def)
  have b: "available (senderSecteurId True super_admin fifteen_from_A) ''ciment''
             [demo_row_B] = 0"
    by (simp add: short_defs senderSecteurId_def available_def balance_def stockRow_def)
  have k: "distinct (map (\<lambda>s. (stock_secteurId s, stock_item s)) (stocks demo_db2))"
    by (simp add: short_defs)
  have f: "tf_item fifteen_from_A = ''ciment''" "tf_unit fifteen_from_A = ''sac''"
    "tf_toSecteurId fifteen_from_A = ''B''" "tf_fromSecteurId fifteen_from_A = ''A''"
    "senderSecteurId True super_admin fifteen_from_A = Some ''A''"
    by (simp_all add: fifteen_from_A_def senderSecteurId_def)
  note t = insufficient_stock_reported
             [OF q, of True super_admin "[demo_row_B]" demo_env demo_db2 "''A''" demo_getTime]
  have "handleTransferSubmit True super_admin fifteen_from_A
       (loadStocks demo_getTime True ''A'' super_admin (stocks demo_db2)) demo_env demo_db2
     = Refused (InsufficientStock 10 ''sac'')"
    using t [THEN conjunct2, THEN conjunct2] a k f by simp
  moreover
  have "handleTransferSubmit True super_admin fifteen_from_A [demo_row_B] demo_env demo_db2
     = Refused (InsufficientStock 0 ''sac'')"
    using t [THEN conjunct2, THEN conjunct1] b f by simp
  moreover
  have "\<exists>e. handleTransferSubmit True super_admin fifteen_from_A [demo_row_B] demo_env demo_db2
           = Refused e"
    using t [THEN conjunct1] b f by simp
  ultimately show ?thesis using q a k by blast
qed

text \<open>
  C4 says that no sequence of operations makes a stock quantity negative. The stock check
  is made once, when a transfer is created, against the page's list of stock rows; a
  pending transfer reserves nothing, and confirming a transfer debits the sender's row
  without comparing quantities. In the first run sector A adds 10, asks twice for a
  transfer of 10 to sector B (each request passes the check against the 10 in stock, read
  from an up-to-date list), and B confirms both: A ends with -10. In the second run only
  one transfer is pending at a time, but the second request is checked against the row
  that the page of A still lists after B's first confirmation has taken the 10: A ends
  with -10 again.
\<close>

theorem overdraw_counterexample:
  "ledgerInv emptyStore \<and>
   offeredRun overdrawing_ops emptyStore \<and> list_all readable overdrawing_ops \<and>
   runOps [AddStock False user_A add_ten (envWithId ''s1'')] emptyStore
     = Some (emptyStore\<lparr>stocks := [ten_in_A]\<rparr>) \<and>
   quantitiesAfter overdrawing_ops emptyStore = Some [-10, 20] \<and>
   oneAtATimeRun stale_ops emptyStore \<and> list_all readable stale_ops \<and>
   quantitiesAfter (take 3 stale_ops) emptyStore = Some [0, 10] \<and>
   quantitiesAfter stale_ops emptyStore = Some [-10, 20]"
  by (simp add: overdrawing_ops_def stale_ops_def run_defs)

text \<open>
  C4, amended. Start from the empty store, or from any store in which the ids are unique,
  a sector has one stock row for an item, no stock quantity is negative, the stored
  additions and transfers have positive quantities, and every pending transfer is covered
  by the sender's row with no second pending transfer from that row. Then every sequence
  of \<open>addStock\<close>, \<open>confirmAddition\<close>, \<open>createTransfer\<close> and
  \<open>confirmTransfer\<close> calls runs to a store with the same properties, so no stock
  quantity is negative, provided that

  \<^item> the calls are ones the page offers: confirmations are of records of the page's lists
    of pending records, the rows of the page's list of stock rows are rows of the store as
    it is when a transfer is requested, and new documents get unused ids;
  \<^item> no transfer is requested from a sector's row for an item while another transfer from
    that row is pending;
  \<^item> the quantity texts are ones from which \<open>parseInt\<close> reads a number (or empty).
\<close>

theorem stock_nonnegative_one_at_a_time:
  assumes "ledgerInv db" and "offeredRun ops db" and "list_all readable ops"
    and "oneAtATimeRun ops db"
  shows "\<exists>db'. runOps ops db = Some db' \<and> ledgerInv db' \<and> quantitiesNonNegative db'"
  using ledgerInv_run[OF assms] by (auto simp: ledgerInv_def)

theorem stock_nonnegative_one_at_a_time_witness:
  "ledgerInv emptyStore \<and> offeredRun orderly_ops emptyStore \<and> list_all readable orderly_ops
   \<and> oneAtATimeRun orderly_ops emptyStore
   \<and> quantitiesAfter orderly_ops emptyStore = Some [0, 10]
   \<and> (\<exists>db'. runOps orderly_ops emptyStore = Some db' \<and> ledgerInv db'
            \<and> quantitiesNonNegative db')"
proof -
  have a: "ledgerInv emptyStore"
    by (simp add: run_defs)
  have b: "offeredRun orderly_ops emptyStore"
    by (simp add: orderly_ops_def run_defs)
  have c: "list_all readable orderly_ops"
    by (simp add: orderly_ops_def run_defs)
  have d: "oneAtATimeRun orderly_ops emptyStore"
    by (simp add: orderly_ops_def run_defs)
  have e: "quantitiesAfter orderly_ops emptyStore = Some [0, 10]"
    by (simp add: orderly_ops_def run_defs)
  show ?thesis using a b c d e stock_nonnegative_one_at_a_time [OF a b c d] by blast
qed

text \<open>
  C8 says that every addStock or createTransfer call with a quantity that is not positive
  is rejected with a validation error before any write. The handlers test the number that
  \<open>parseInt\<close> reads from the field's text with \<open>quantity <= 0\<close>. The text
  \<open>-.5e1\<close> is minus five in a number field, \<open>parseInt\<close> reads no digit in it and
  returns \<open>NaN\<close>, and \<open>NaN <= 0\<close> is false, so the check lets the request through:
  a super admin's addStock creates a pending addition with quantity \<open>NaN\<close>, a sector
  admin's addStock creates a stock row with quantity \<open>NaN\<close> or applies
  \<open>increment(NaN)\<close> to the sector's row, and createTransfer, whose stock check
  \<open>currentStock.quantity < quantity\<close> is false as well, creates a pending transfer with
  quantity \<open>NaN\<close>. A text from which \<open>parseInt\<close> reads an integer that is not
  positive (\<open>0\<close>, \<open>-5\<close>) is refused.
\<close>

theorem quantity_check_misses_NaN:
  "parseInt ''-.5e1'' = None \<and>
   handleAddStockSubmit True user_A (add_ten\<lparr>af_quantity := ''-.5e1''\<rparr>) demo_env emptyStore
     = StoredNaN (AddAdditionNaN ''A'' ''ciment'' ''sac'') \<and>
   handleAddStockSubmit False user_A (add_ten\<lparr>af_quantity := ''-.5e1''\<rparr>) demo_env emptyStore
     = StoredNaN (AddStockNaN ''A'' ''ciment'' ''sac'') \<and>
   handleAddStockSubmit False user_A (add_ten\<lparr>af_quantity := ''-.5e1''\<rparr>) demo_env demo_db
     = StoredNaN (IncrementNaN ''s1'') \<and>
   handleTransferSubmit False user_A (send_ten\<lparr>tf_quantity := ''-.5e1''\<rparr>) [demo_row]
       demo_env demo_db
     = StoredNaN (AddTransferNaN ''A'' ''B'' ''ciment'' ''sac'') \<and>
   handleAddStockSubmit True user_A (add_ten\<lparr>af_quantity := ''-5''\<rparr>) demo_env emptyStore
     = Refused NonPositiveQuantity \<and>
   handleTransferSubmit False user_A (send_ten\<lparr>tf_quantity := ''0''\<rparr>) [demo_row]
       demo_env demo_db
     = Refused NonPositiveQuantity"
  by (simp add: demo_defs demo_db_def demo_row_def demo_env_def demo_transfer_def handler_defs)

text \<open>
  C10. When the credited sector already has a row for the item, \<open>handleConfirmAddition\<close>
  and \<open>handleConfirmTransfer\<close> find it by \<open>secteurId\<close> and \<open>item\<close> alone: whatever
  the unit of the addition or transfer, its quantity is added to that row, the row keeps
  its own unit, and no row is created.
\<close>

theorem credit_matches_sector_and_item_only:
  assumes ids: "distinct (map stock_id (stocks db))"
  shows "(add_id addition \<in> add_id ` set (stock_additions db) \<and>
          stockRow (add_secteurId addition) (add_item addition) (stocks db) = Some row
          \<longrightarrow> (\<exists>db' row'. handleConfirmAddition env addition db = Inr db' \<and>
                 stockRow (add_secteurId addition) (add_item addition) (stocks db') = Some row' \<and>
                 stock_id row' = stock_id row \<and>
                 stock_quantity row' = stock_quantity row + add_quantity addition \<and>
                 stock_unit row' = stock_unit row \<and>
                 map stock_id (stocks db') = map stock_id (stocks db)))
       \<and> (tr_id transfer \<in> tr_id ` set (stock_transfers db) \<and>
          tr_fromSecteurId transfer \<noteq> tr_toSecteurId transfer \<and>
          stockRow (tr_toSecteurId transfer) (tr_item transfer) (stocks db) = Some row
          \<longrightarrow> (\<exists>db' row'. handleConfirmTransfer env transfer db = Inr db' \<and>
                 stockRow (tr_toSecteurId transfer) (tr_item transfer) (stocks db') = Some row' \<and>
                 stock_id row' = stock_id row \<and>
                 stock_quantity row' = stock_quantity row + tr_quantity transfer \<and>
                 stock_unit row' = stock_unit row \<and>
                 map stock_id (stocks db') = map stock_id (stocks db)))"
proof (intro conjI impI)
  assume h: "add_id addition \<in> add_id ` set (stock_additions db) \<and>
          stockRow (add_secteurId addition) (add_item addition) (stocks db) = Some row"
  then show "\<exists>db' row'. handleConfirmAddition env addition db = Inr db' \<and>
                 stockRow (add_secteurId addition) (add_item addition) (stocks db') = Some row' \<and>
                 stock_id row' = stock_id row \<and>
                 stock_quantity row' = stock_quantity row + add_quantity addition \<and>
                 stock_unit row' = stock_unit row \<and>
                 map stock_id (stocks db') = map stock_id (stocks db)"
    by (simp add: handleConfirmAddition_def Let_def addToStock_existing stockRow_incrementStock)
next
  let ?A = "tr_fromSecteurId transfer" and ?B = "tr_toSecteurId transfer"
  let ?i = "tr_item transfer"
  let ?debited = "case stockQuery ?A ?i (stocks db) of [] \<Rightarrow> stocks db
            | senderStockDoc # _ \<Rightarrow>
                incrementStock (stock_id senderStockDoc) (- tr_quantity transfer) (now env) (stocks db)"
  assume h: "tr_id transfer \<in> tr_id ` set (stock_transfers db) \<and> ?A \<noteq> ?B \<and>
          stockRow ?B ?i (stocks db) = Some row"
  have row: "stockRow ?B ?i ?debited = Some row"
    using h sender_step_keeps_other_row[OF ids, of ?A ?B ?i] by simp
  have res: "handleConfirmTransfer env transfer db =
               Inr (db\<lparr>stock_transfers :=
                        map (\<lambda>t. if tr_id t = tr_id transfer
                                  then t\<lparr>tr_status := Confirmed,
                                         tr_confirmedAt := Some (serverTime env)\<rparr>
                                  else t) (stock_transfers db),
                      stocks := addToStock env ?B ?i (tr_quantity transfer) (tr_unit transfer)
                                  ?debited\<rparr>)"
    using h by (cases "stockQuery ?A ?i (stocks db)")
               (simp_all add: handleConfirmTransfer_def Let_def)
  show "\<exists>db' row'. handleConfirmTransfer env transfer db = Inr db' \<and>
                 stockRow ?B ?i (stocks db') = Some row' \<and>
                 stock_id row' = stock_id row \<and>
                 stock_quantity row' = stock_quantity row + tr_quantity transfer \<and>
                 stock_unit row' = stock_unit row \<and>
                 map stock_id (stocks db') = map stock_id (stocks db)"
    unfolding res using row
    by (simp add: addToStock_existing[OF row] stockRow_incrementStock sender_step_ids)
qed

theorem credit_matches_sector_and_item_only_witness:
  "distinct (map stock_id (stocks demo_db2)) \<and>
   add_unit demo_addition \<noteq> stock_unit demo_row \<and>
   tr_unit demo_transfer \<noteq> stock_unit demo_row_B \<and>
   (\<exists>db' row'. handleConfirmAddition demo_env demo_addition demo_db2 = Inr db' \<and>
       stockRow ''A'' ''ciment'' (stocks db') = Some row' \<and>
       stock_quantity row' = 15 \<and> stock_unit row' = ''sac'') \<and>
   (\<exists>db' row'. handleConfirmTransfer demo_env demo_transfer demo_db2 = Inr db' \<and>
       stockRow ''B'' ''ciment'' (stocks db') = Some row' \<and>
       stock_quantity row' = 5 \<and> stock_unit row' = ''tonne'')"
proof -
  have ids: "distinct (map stock_id (stocks demo_db2))"
    by (simp add: demo_db2_def demo_row_def demo_row_B_def)
  have a: "add_id demo_addition \<in> add_id ` set (stock_additions demo_db2) \<and>
           stockRow (add_secteurId demo_addition) (add_item demo_addition) (stocks demo_db2)
             = Some demo_row"
    by (simp add: demo_db2_def demo_addition_def demo_row_def stockRow_def)
  have t: "tr_id demo_transfer \<in> tr_id ` set (stock_transfers demo_db2) \<and>
           tr_fromSecteurId demo_transfer \<noteq> tr_toSecteurId demo_transfer \<and>
           stockRow (tr_toSecteurId demo_transfer) (tr_item demo_transfer) (stocks demo_db2)
             = Some demo_row_B"
    by (simp add: demo_db2_def demo_transfer_def demo_row_def demo_row_B_def stockRow_def)
  note c = credit_matches_sector_and_item_only [OF ids, of demo_addition _ demo_env demo_transfer]
  have "\<exists>db' row'. handleConfirmAddition demo_env demo_addition demo_db2 = Inr db' \<and>
       stockRow ''A'' ''ciment'' (stocks db') = Some row' \<and>
       stock_quantity row' = 15 \<and> stock_unit row' = ''sac''"
    using c [THEN conjunct1, rule_format, OF a]
    by (auto simp: demo_addition_def demo_row_def)
  moreover have "\<exists>db' row'. handleConfirmTransfer demo_env demo_transfer demo_db2 = Inr db' \<and>
       stockRow ''B'' ''ciment'' (stocks db') = Some row' \<and>
       stock_quantity row' = 5 \<and> stock_unit row' = ''tonne''"
    using c [THEN conjunct2, rule_format, OF t]
    by (auto simp: demo_transfer_def demo_row_B_def)
  ultimately show ?thesis using ids
    by (simp add: demo_addition_def demo_row_def demo_transfer_def demo_row_B_def)
qed

section \<open>Properties of the occupancy functions\<close>

subsection \<open>The grouping and its keys\<close>

lemma fold_group:
  "(case fold (\<lambda>worker acc.
             if worker_statut worker = actif \<and> worker_chambre worker \<noteq> []
                \<and> worker_fermeId worker \<noteq> []
             then acc(workerKey worker \<mapsto>
                        (case acc (workerKey worker) of None \<Rightarrow> [] | Some ws \<Rightarrow> ws) @ [worker])
             else acc) workers acc k of None \<Rightarrow> [] | Some ws \<Rightarrow> ws)
   = (case acc k of None \<Rightarrow> [] | Some ws \<Rightarrow> ws)
     @ filter (\<lambda>w. worker_statut w = actif \<and> worker_chambre w \<noteq> []
                   \<and> worker_fermeId w \<noteq> [] \<and> workerKey w = k) workers"
  by (induction workers arbitrary: acc) (auto split: option.splits)

lemma workersInRoom_filter:
  "workersInRoom workers room =
     filter (\<lambda>w. worker_statut w = actif \<and> worker_chambre w \<noteq> []
                 \<and> worker_fermeId w \<noteq> [] \<and> workerKey w = roomKey room) workers"
  unfolding workersInRoom_def workersByRoom_def by (simp add: fold_group)

lemma dash_split:
  assumes "CHR ''-'' \<notin> set f1" "CHR ''-'' \<notin> set f2" "f1 @ CHR ''-'' # r1 = f2 @ CHR ''-'' # r2"
  shows "f1 = f2 \<and> r1 = r2"
  using assms
proof (induction f1 arbitrary: f2)
  case Nil
  then show ?case by (cases f2) auto
next
  case (Cons a f1)
  then show ?case by (cases f2) auto
qed

lemma length_labels [simp]: "length (workerGender w) = 6" "length (genreText g) = 6"
  by (simp_all add: workerGender_def, cases g, simp_all)

lemma key_eq_iff:
  assumes "CHR ''-'' \<notin> set (worker_fermeId w)" "CHR ''-'' \<notin> set (room_fermeId r)"
  shows "workerKey w = roomKey r \<longleftrightarrow>
           worker_fermeId w = room_fermeId r \<and> worker_chambre w = room_numero r
           \<and> workerGender w = genreText (room_genre r)"
proof
  assume eq: "workerKey w = roomKey r"
  then have "worker_fermeId w @ CHR ''-'' # (worker_chambre w @ ''-'' @ workerGender w)
           = room_fermeId r @ CHR ''-'' # (room_numero r @ ''-'' @ genreText (room_genre r))"
    by (simp add: workerKey_def roomKey_def)
  from dash_split[OF assms this]
  have f: "worker_fermeId w = room_fermeId r"
    and rest: "(worker_chambre w @ ''-'') @ workerGender w
             = (room_numero r @ ''-'') @ genreText (room_genre r)"
    by simp_all
  from rest have "worker_chambre w @ ''-'' = room_numero r @ ''-''
                  \<and> workerGender w = genreText (room_genre r)"
    by (subst (asm) append_eq_append_conv) simp_all
  then show "worker_fermeId w = room_fermeId r \<and> worker_chambre w = room_numero r
           \<and> workerGender w = genreText (room_genre r)"
    using f by simp
next
  assume "worker_fermeId w = room_fermeId r \<and> worker_chambre w = room_numero r
           \<and> workerGender w = genreText (room_genre r)"
  then show "workerKey w = roomKey r" by (simp add: workerKey_def roomKey_def)
qed

lemma workersInRoom_fields:
  assumes "\<forall>w\<in>set workers. CHR ''-'' \<notin> set (worker_fermeId w)"
    and "CHR ''-'' \<notin> set (room_fermeId room)"
  shows "workersInRoom workers room
           = filter (\<lambda>w. worker_chambre w \<noteq> [] \<and> worker_fermeId w \<noteq> [])
               (trueOccupants workers room)"
  unfolding workersInRoom_filter trueOccupants_def filter_filter
  using assms by (intro filter_cong) (auto simp: key_eq_iff)

lemma workersInRoom_true:
  assumes "\<forall>w\<in>set workers. CHR ''-'' \<notin> set (worker_fermeId w)"
    and "CHR ''-'' \<notin> set (room_fermeId room)"
    and "room_numero room \<noteq> []" "room_fermeId room \<noteq> []"
  shows "workersInRoom workers room = trueOccupants workers room"
  unfolding workersInRoom_filter trueOccupants_def
  using assms by (intro filter_cong) (auto simp: key_eq_iff)

subsection \<open>The loop of syncRoomOccupancy\<close>

lemma find_absent:
  "docId \<notin> room_id ` set rooms \<Longrightarrow> find (\<lambda>x. room_id x = docId) rooms = None"
  by (induction rooms) auto

lemma sync_fold_general:
  assumes "distinct (map room_id rooms)"
  shows "syncRoomOccupancy today workers rooms docs =
           map (\<lambda>r. case find (\<lambda>room. room_id room = room_id r) rooms of
                       None \<Rightarrow> r | Some room \<Rightarrow> corrected today workers room r) docs"
  using assms
proof (induction rooms arbitrary: docs)
  case Nil
  then show ?case by (simp add: syncRoomOccupancy_def)
next
  case (Cons room rooms)
  have absent: "find (\<lambda>x. room_id x = room_id room) rooms = None"
    using Cons.prems by (simp add: find_absent)
  let ?step = "if room_occupantsActuels room \<noteq> actualOccupants workers room
               then updateRoom (room_id room) (correctionOf today workers room) docs else docs"
  have "syncRoomOccupancy today workers (room # rooms) docs
          = syncRoomOccupancy today workers rooms ?step"
    by (simp add: syncRoomOccupancy_def)
  also have "\<dots> = map (\<lambda>r. case find (\<lambda>room. room_id room = room_id r) rooms of
                       None \<Rightarrow> r | Some room \<Rightarrow> corrected today workers room r) ?step"
    using Cons by simp
  also have "\<dots> = map (\<lambda>r. case find (\<lambda>room. room_id room = room_id r) (room # rooms) of
                       None \<Rightarrow> r | Some room \<Rightarrow> corrected today workers room r) docs"
    using absent
    by (auto simp: updateRoom_def correctionOf_def corrected_def)
  finally show ?case .
qed

lemma find_self:
  "distinct (map room_id rooms) \<Longrightarrow> r \<in> set rooms \<Longrightarrow>
   find (\<lambda>room. room_id room = room_id r) rooms = Some r"
  by (induction rooms) (auto simp: image_iff)

lemma sync_map:
  assumes "distinct (map room_id rooms)"
  shows "syncRoomOccupancy today workers rooms rooms =
           map (\<lambda>r. corrected today workers r r) rooms"
  unfolding sync_fold_general[OF assms]
  by (rule map_cong) (simp_all add: find_self[OF assms])

lemma roomKey_corrected [simp]: "roomKey (corrected today workers room r) = roomKey r"
  by (simp add: corrected_def roomKey_def)

lemma actualOccupants_corrected [simp]:
  "actualOccupants workers (corrected today workers' room r) = actualOccupants workers r"
  by (simp add: actualOccupants_def workersInRoom_def)

lemma occupants_corrected:
  "room_occupantsActuels (corrected today workers r r) = actualOccupants workers r"
  by (simp add: corrected_def)

lemma distinct_room_ids_eq:
  "distinct (map room_id rooms) \<Longrightarrow> a \<in> set rooms \<Longrightarrow> b \<in> set rooms \<Longrightarrow>
   room_id a = room_id b \<Longrightarrow> a = b"
  by (meson distinct_map inj_onD)

lemma emitted_iff:
  assumes "distinct (map room_id rooms)" "room \<in> set rooms"
  shows "room_id room \<in> fst ` set (roomCorrections today workers rooms)
         \<longleftrightarrow> room_occupantsActuels room \<noteq> actualOccupants workers room"
proof
  assume "room_id room \<in> fst ` set (roomCorrections today workers rooms)"
  then obtain x where x: "x \<in> set rooms" "room_occupantsActuels x \<noteq> actualOccupants workers x"
      "room_id x = room_id room"
    by (auto simp: roomCorrections_def)
  then have "x = room" using distinct_room_ids_eq[OF assms(1) x(1) assms(2)] by simp
  then show "room_occupantsActuels room \<noteq> actualOccupants workers room" using x by simp
next
  assume "room_occupantsActuels room \<noteq> actualOccupants workers room"
  then show "room_id room \<in> fst ` set (roomCorrections today workers rooms)"
    using assms(2) by (force simp: roomCorrections_def)
qed

lemma sync_nth:
  assumes "distinct (map room_id rooms)" "k < length rooms"
  shows "syncRoomOccupancy today workers rooms rooms ! k
           = corrected today workers (rooms ! k) (rooms ! k)"
  using assms by (simp add: sync_map)

lemma actualOccupants_filter:
  "actualOccupants workers room =
     int (length (filter (\<lambda>w. worker_statut w = actif \<and> worker_chambre w \<noteq> []
                 \<and> worker_fermeId w \<noteq> [] \<and> workerKey w = roomKey room) workers))"
  by (simp add: actualOccupants_def workersInRoom_filter)

subsection \<open>The statistics\<close>

lemma fold_count:
  "(case fold (\<lambda>worker acc.
             if worker_chambre worker \<noteq> []
             then acc(worker_chambre worker @ ''-'' @ workerGender worker \<mapsto>
                        (case acc (worker_chambre worker @ ''-'' @ workerGender worker) of
                           None \<Rightarrow> 0 | Some n \<Rightarrow> n) + 1)
             else acc) ws acc k of None \<Rightarrow> 0 | Some n \<Rightarrow> n)
   = (case acc k of None \<Rightarrow> 0 | Some n \<Rightarrow> n)
     + int (length (filter (\<lambda>w. worker_chambre w \<noteq> []
                    \<and> worker_chambre w @ ''-'' @ workerGender w = k) ws))"
  by (induction ws arbitrary: acc) (auto split: option.splits)

lemma label_key_eq:
  "worker_chambre w @ ''-'' @ workerGender w = room_numero r @ ''-'' @ genreText (room_genre r)
   \<longleftrightarrow> worker_chambre w = room_numero r \<and> workerGender w = genreText (room_genre r)"
proof -
  have "(worker_chambre w @ ''-'') @ workerGender w
          = (room_numero r @ ''-'') @ genreText (room_genre r)
        \<longleftrightarrow> worker_chambre w @ ''-'' = room_numero r @ ''-''
            \<and> workerGender w = genreText (room_genre r)"
    by (rule append_eq_append_conv) simp
  then show ?thesis by simp
qed

lemma workersCount_roomStat:
  "stat_workersCount (roomStat (countByRoom ws) room)
     = int (length (filter (\<lambda>w. worker_chambre w \<noteq> [] \<and> worker_chambre w = room_numero room
                              \<and> workerGender w = genreText (room_genre room)) ws))"
proof -
  have "stat_workersCount (roomStat (countByRoom ws) room)
     = int (length (filter (\<lambda>w. worker_chambre w \<noteq> []
          \<and> worker_chambre w @ ''-'' @ workerGender w
              = room_numero room @ ''-'' @ genreText (room_genre room)) ws))"
    unfolding roomStat_def countByRoom_def Let_def by (simp add: fold_count)
  then show ?thesis by (simp only: label_key_eq)
qed

lemma fold_plus:
  "fold (\<lambda>x sum. sum + f x) xs (a::int) = a + sum_list (map f xs)"
  by (induction xs arbitrary: a) auto

lemma capacityUsed_le:
  "stat_capacityUsed (roomStat byRoom room) \<le> room_capaciteTotale room"
  by (simp add: roomStat_def Let_def)

lemma totalOccupied_le: "totalOccupied fermeId workers rooms \<le> totalCapacity fermeId rooms"
proof -
  have "sum_list (map (\<lambda>r. stat_capacityUsed (roomStat byRoom r)) rs)
          \<le> sum_list (map room_capaciteTotale rs)" for byRoom rs
    by (rule sum_list_mono) (simp add: capacityUsed_le)
  then show ?thesis
    by (simp add: totalOccupied_def totalCapacity_def roomStats_def fold_plus comp_def)
qed

lemma Math_round_le:
  assumes "x \<le> 100"
  shows "Math_round x \<le> 100"
proof -
  have "x + 1 / 2 < of_int 101" using assms by simp
  then have "\<lfloor>x + 1 / 2\<rfloor> < 101" by (simp only: floor_less_iff)
  then show ?thesis by (simp add: Math_round_def)
qed

lemma Math_round_0: "Math_round 0 = 0"
proof -
  have "\<lfloor>(1::rat) / 2\<rfloor> = 0" by (rule floor_unique) simp_all
  then show ?thesis by (simp add: Math_round_def)
qed

lemma Math_round_nearest: "\<bar>of_int (Math_round x) - x\<bar> \<le> 1 / 2"
proof -
  have "of_int \<lfloor>x + 1 / 2\<rfloor> \<le> x + 1 / 2" by (rule of_int_floor_le)
  moreover have "x + 1 / 2 < of_int \<lfloor>x + 1 / 2\<rfloor> + 1"
    using floor_correct[of "x + 1 / 2"] by simp
  ultimately show ?thesis unfolding Math_round_def by linarith
qed

lemma Math_round_25: "Math_round 25 = 25"
proof -
  have "\<lfloor>(25::rat) + 1 / 2\<rfloor> = 25" by (rule floor_unique) simp_all
  then show ?thesis by (simp add: Math_round_def)
qed

lemma rate_le:
  fixes u c :: int
  assumes "0 < c" "u \<le> c"
  shows "(of_int u / of_int c) * 100 \<le> (100::rat)"
proof -
  have "(of_int u :: rat) \<le> of_int c" using assms by simp
  then have "(of_int u :: rat) / of_int c \<le> 1" using assms by (simp add: divide_le_eq_1)
  then have "(of_int u :: rat) / of_int c * 100 \<le> 1 * 100"
    by (intro mult_right_mono) simp_all
  then show ?thesis by (simp only: mult_1)
qed

lemma averageUtilization_le: "averageUtilization fermeId workers rooms \<le> 100"
proof (cases "totalCapacity fermeId rooms > 0")
  case True
  then show ?thesis
    unfolding averageUtilization_def using rate_le[OF True totalOccupied_le] by (simp only: if_True)
next
  case False
  then show ?thesis by (simp add: averageUtilization_def)
qed

lemma utilizationRate_le: "stat_utilizationRate (roomStat byRoom room) \<le> 100"
proof (cases "room_capaciteTotale room > 0")
  case True
  have "stat_utilizationRate (roomStat byRoom room)
          = of_int (stat_capacityUsed (roomStat byRoom room))
            / of_int (room_capaciteTotale room) * 100"
    using True by (simp add: roomStat_def Let_def)
  then show ?thesis using rate_le[OF True capacityUsed_le] by (simp only:)
next
  case False
  then show ?thesis by (simp add: roomStat_def Let_def)
qed

lemma roomStat_fields:
  "stat_room (roomStat byRoom room) = room"
  "stat_capacityUsed (roomStat byRoom room)
     = min (stat_workersCount (roomStat byRoom room)) (room_capaciteTotale room)"
  "stat_utilizationRate (roomStat byRoom room)
     = (if room_capaciteTotale room > 0
        then of_int (min (stat_workersCount (roomStat byRoom room)) (room_capaciteTotale room))
             / of_int (room_capaciteTotale room) * 100
        else 0)"
  by (simp_all add: roomStat_def Let_def)

lemma Math_round_third: "Math_round (100 / 3) = 33"
proof -
  have "\<lfloor>(100::rat) / 3 + 1 / 2\<rfloor> = 33" by (rule floor_unique) simp_all
  then show ?thesis by (simp add: Math_round_def)
qed

subsection \<open>Unfolding the functions on the example data\<close>

lemmas occupancy_defs = worker_in_def room_101_def room_201_def demo_workers_def demo_rooms_def
  colliding_worker_def colliding_room_def unassigned_worker_def unnumbered_room_def syncRoomOccupancy_def roomCorrections_def
  actualOccupants_def workersInRoom_def workersByRoom_def workerKey_def roomKey_def
  workerGender_def correctionOf_def updateRoom_def trueOccupants_def

lemmas stats_defs = roomStats_def roomStat_def countByRoom_def fermeWorkers_def fermeRooms_def
  totalCapacity_def totalOccupied_def averageUtilization_def tauxOccupation_def workerGender_def
  Let_def

section \<open>The claims about room occupancy\<close>

text \<open>
  C5 says that after the recount every room's \<open>occupantsActuels\<close> is the number of
  active workers whose \<open>chambre\<close>, gender label and \<open>fermeId\<close> are the room's, and
  that a correction is emitted exactly when the stored count differs from that number.
  Two inputs on which it is not so. The recount leaves out a worker whose \<open>chambre\<close> is
  empty: a room with an empty \<open>numero\<close> keeps its 0 although an active worker of its
  farm and gender has the same (empty) \<open>chambre\<close>. And the recount compares key strings,
  not fields: the worker of farm \<open>F-1\<close> in room \<open>2\<close> and the room \<open>1-2\<close> of
  farm \<open>F\<close> have the same key \<open>F-1-2-hommes\<close>, so that this room, which has no
  occupant and stores 0, gets a correction to 1.
\<close>

theorem recount_counterexample:
  "length (trueOccupants [unassigned_worker] unnumbered_room) = 1 \<and>
   room_occupantsActuels unnumbered_room = 0 \<and>
   map room_occupantsActuels
     (syncRoomOccupancy 9 [unassigned_worker] [unnumbered_room] [unnumbered_room]) = [0] \<and>
   roomCorrections 9 [unassigned_worker] [unnumbered_room] = [] \<and>
   trueOccupants [colliding_worker] colliding_room = [] \<and>
   room_occupantsActuels colliding_room = 0 \<and>
   map room_occupantsActuels
     (syncRoomOccupancy 9 [colliding_worker] [colliding_room] [colliding_room]) = [1] \<and>
   map fst (roomCorrections 9 [colliding_worker] [colliding_room]) = [''r9'']"
  by (simp add: occupancy_defs)

text \<open>
  C5, amended. After \<open>syncRoomOccupancy\<close> (document ids unique, store calls
  succeeding) every room's \<open>occupantsActuels\<close> is the length of the list that the
  grouping holds under the room's key, and a correction is emitted for a room exactly when
  its stored \<open>occupantsActuels\<close> differs from that number. When no \<open>fermeId\<close> of a
  worker or of the room contains the separator \<open>-\<close>, that number is the number of
  active workers with a non-empty \<open>chambre\<close> and \<open>fermeId\<close> whose \<open>chambre\<close>,
  gender label and \<open>fermeId\<close> are the room's \<open>numero\<close>, \<open>genre\<close> and
  \<open>fermeId\<close>; when moreover the room's \<open>numero\<close> and \<open>fermeId\<close> are not empty,
  it is the number of all active workers with these three fields equal to the room's.
\<close>

theorem recount_after_sync:
  assumes ids: "distinct (map room_id rooms)" and k: "k < length rooms"
  shows "room_occupantsActuels (syncRoomOccupancy today workers rooms rooms ! k)
           = int (length (filter (\<lambda>w. worker_statut w = actif \<and> worker_chambre w \<noteq> []
                   \<and> worker_fermeId w \<noteq> [] \<and> workerKey w = roomKey (rooms ! k)) workers))
       \<and> (room_id (rooms ! k) \<in> fst ` set (roomCorrections today workers rooms)
            \<longleftrightarrow> room_occupantsActuels (rooms ! k)
                 \<noteq> int (length (filter (\<lambda>w. worker_statut w = actif \<and> worker_chambre w \<noteq> []
                   \<and> worker_fermeId w \<noteq> [] \<and> workerKey w = roomKey (rooms ! k)) workers)))
       \<and> ((\<forall>w\<in>set workers. CHR ''-'' \<notin> set (worker_fermeId w))
            \<and> CHR ''-'' \<notin> set (room_fermeId (rooms ! k))
          \<longrightarrow> room_occupantsActuels (syncRoomOccupancy today workers rooms rooms ! k)
                = int (length (filter (\<lambda>w. worker_chambre w \<noteq> [] \<and> worker_fermeId w \<noteq> [])
                                 (trueOccupants workers (rooms ! k))))
              \<and> (room_id (rooms ! k) \<in> fst ` set (roomCorrections today workers rooms)
                   \<longleftrightarrow> room_occupantsActuels (rooms ! k)
                        \<noteq> int (length (filter (\<lambda>w. worker_chambre w \<noteq> []
                                                   \<and> worker_fermeId w \<noteq> [])
                                         (trueOccupants workers (rooms ! k))))))
       \<and> ((\<forall>w\<in>set workers. CHR ''-'' \<notin> set (worker_fermeId w))
            \<and> CHR ''-'' \<notin> set (room_fermeId (rooms ! k))
            \<and> room_numero (rooms ! k) \<noteq> [] \<and> room_fermeId (rooms ! k) \<noteq> []
          \<longrightarrow> room_occupantsActuels (syncRoomOccupancy today workers rooms rooms ! k)
                = int (length (trueOccupants workers (rooms ! k)))
              \<and> (room_id (rooms ! k) \<in> fst ` set (roomCorrections today workers rooms)
                   \<longleftrightarrow> room_occupantsActuels (rooms ! k)
                        \<noteq> int (length (trueOccupants workers (rooms ! k)))))"
proof -
  let ?room = "rooms ! k"
  have mem: "?room \<in> set rooms" using k by simp
  have occ: "room_occupantsActuels (syncRoomOccupancy today workers rooms rooms ! k)
               = actualOccupants workers ?room"
    by (simp add: sync_nth[OF ids k] occupants_corrected)
  have em: "room_id ?room \<in> fst ` set (roomCorrections today workers rooms)
         \<longleftrightarrow> room_occupantsActuels ?room \<noteq> actualOccupants workers ?room"
    by (rule emitted_iff[OF ids mem])
  have by_key: "actualOccupants workers ?room
      = int (length (filter (\<lambda>w. worker_statut w = actif \<and> worker_chambre w \<noteq> []
                   \<and> worker_fermeId w \<noteq> [] \<and> workerKey w = roomKey ?room) workers))"
    by (rule actualOccupants_filter)
  have by_fields: "actualOccupants workers ?room
      = int (length (filter (\<lambda>w. worker_chambre w \<noteq> [] \<and> worker_fermeId w \<noteq> [])
                       (trueOccupants workers ?room)))"
    if "\<forall>w\<in>set workers. CHR ''-'' \<notin> set (worker_fermeId w)"
       "CHR ''-'' \<notin> set (room_fermeId ?room)"
    using workersInRoom_fields[OF that] by (simp add: actualOccupants_def)
  have all: "actualOccupants workers ?room = int (length (trueOccupants workers ?room))"
    if "\<forall>w\<in>set workers. CHR ''-'' \<notin> set (worker_fermeId w)"
       "CHR ''-'' \<notin> set (room_fermeId ?room)"
       "room_numero ?room \<noteq> []" "room_fermeId ?room \<noteq> []"
    using workersInRoom_true[OF that] by (simp add: actualOccupants_def)
  show ?thesis
    unfolding occ em
  proof (intro conjI impI)
    show "actualOccupants workers ?room
      = int (length (filter (\<lambda>w. worker_statut w = actif \<and> worker_chambre w \<noteq> []
                   \<and> worker_fermeId w \<noteq> [] \<and> workerKey w = roomKey ?room) workers))"
      by (rule by_key)
    show "(room_occupantsActuels ?room \<noteq> actualOccupants workers ?room)
        = (room_occupantsActuels ?room
            \<noteq> int (length (filter (\<lambda>w. worker_statut w = actif \<and> worker_chambre w \<noteq> []
                   \<and> worker_fermeId w \<noteq> [] \<and> workerKey w = roomKey ?room) workers)))"
      by (simp only: by_key)
  next
    assume h: "(\<forall>w\<in>set workers. CHR ''-'' \<notin> set (worker_fermeId w))
            \<and> CHR ''-'' \<notin> set (room_fermeId ?room)"
    then have e: "actualOccupants workers ?room
      = int (length (filter (\<lambda>w. worker_chambre w \<noteq> [] \<and> worker_fermeId w \<noteq> [])
                       (trueOccupants workers ?room)))"
      using by_fields by blast
    show "actualOccupants workers ?room
      = int (length (filter (\<lambda>w. worker_chambre w \<noteq> [] \<and> worker_fermeId w \<noteq> [])
                       (trueOccupants workers ?room)))"
      by (rule e)
    show "(room_occupantsActuels ?room \<noteq> actualOccupants workers ?room)
        = (room_occupantsActuels ?room
            \<noteq> int (length (filter (\<lambda>w. worker_chambre w \<noteq> [] \<and> worker_fermeId w \<noteq> [])
                       (trueOccupants workers ?room))))"
      by (simp only: e)
  next
    assume h: "(\<forall>w\<in>set workers. CHR ''-'' \<notin> set (worker_fermeId w))
            \<and> CHR ''-'' \<notin> set (room_fermeId ?room)
            \<and> room_numero ?room \<noteq> [] \<and> room_fermeId ?room \<noteq> []"
    then have e: "actualOccupants workers ?room = int (length (trueOccupants workers ?room))"
      using all by blast
    show "actualOccupants workers ?room = int (length (trueOccupants workers ?room))"
      by (rule e)
    show "(room_occupantsActuels ?room \<noteq> actualOccupants workers ?room)
        = (room_occupantsActuels ?room \<noteq> int (length (trueOccupants workers ?room)))"
      by (simp only: e)
  qed
qed

theorem recount_after_sync_witness:
  "distinct (map room_id demo_rooms) \<and> (0::nat) < length demo_rooms \<and>
   list_all (\<lambda>w. CHR ''-'' \<notin> set (worker_fermeId w)) demo_workers \<and>
   room_numero (demo_rooms ! 0) = ''101'' \<and> room_fermeId (demo_rooms ! 0) = ''F1'' \<and>
   room_occupantsActuels (demo_rooms ! 0) = 1 \<and>
   room_occupantsActuels (syncRoomOccupancy 9 demo_workers demo_rooms demo_rooms ! 0) = 2 \<and>
   length (trueOccupants demo_workers (demo_rooms ! 0)) = 2 \<and>
   room_id (demo_rooms ! 0) \<in> fst ` set (roomCorrections 9 demo_workers demo_rooms)"
proof -
  have ids: "distinct (map room_id demo_rooms)" by (simp add: occupancy_defs)
  have k: "(0::nat) < length demo_rooms" by (simp add: occupancy_defs)
  have dash: "\<forall>w\<in>set demo_workers. CHR ''-'' \<notin> set (worker_fermeId w)"
    by (simp add: occupancy_defs)
  have t: "length (trueOccupants demo_workers (demo_rooms ! 0)) = 2"
    by (simp add: occupancy_defs)
  have r: "CHR ''-'' \<notin> set (room_fermeId (demo_rooms ! 0)) \<and> room_numero (demo_rooms ! 0) \<noteq> []
           \<and> room_fermeId (demo_rooms ! 0) \<noteq> [] \<and> room_occupantsActuels (demo_rooms ! 0) = 1"
    by (simp add: occupancy_defs)
  have l: "list_all (\<lambda>w. CHR ''-'' \<notin> set (worker_fermeId w)) demo_workers"
    using dash by (simp add: list_all_iff)
  have f: "room_numero (demo_rooms ! 0) = ''101'' \<and> room_fermeId (demo_rooms ! 0) = ''F1''"
    by (simp add: occupancy_defs)
  note c = recount_after_sync [OF ids k, of 9 demo_workers]
  have "room_occupantsActuels (syncRoomOccupancy 9 demo_workers demo_rooms demo_rooms ! 0)
          = int (length (trueOccupants demo_workers (demo_rooms ! 0)))
        \<and> (room_id (demo_rooms ! 0) \<in> fst ` set (roomCorrections 9 demo_workers demo_rooms)
             \<longleftrightarrow> room_occupantsActuels (demo_rooms ! 0)
                  \<noteq> int (length (trueOccupants demo_workers (demo_rooms ! 0))))"
    using c [THEN conjunct2, THEN conjunct2, THEN conjunct2, rule_format] dash r by blast
  then show ?thesis using ids k t r l f by simp
qed

text \<open>
  C6. Once \<open>syncRoomOccupancy\<close> has run and its corrections are in the collection, a
  second run over the result with the same workers emits no correction and writes nothing.
\<close>

theorem reconcile_idempotent:
  assumes ids: "distinct (map room_id rooms)"
  shows "roomCorrections today' workers (syncRoomOccupancy today workers rooms rooms) = []
       \<and> syncRoomOccupancy today' workers (syncRoomOccupancy today workers rooms rooms)
           (syncRoomOccupancy today workers rooms rooms)
         = syncRoomOccupancy today workers rooms rooms"
proof -
  let ?once = "syncRoomOccupancy today workers rooms rooms"
  have once: "?once = map (\<lambda>r. corrected today workers r r) rooms" by (rule sync_map[OF ids])
  have "map room_id ?once = map room_id rooms"
    unfolding once by (simp add: corrected_def)
  then have ids': "distinct (map room_id ?once)" using ids by simp
  have settled: "room_occupantsActuels r = actualOccupants workers r" if "r \<in> set ?once" for r
    using that unfolding once by (auto simp: occupants_corrected)
  have "roomCorrections today' workers ?once = []"
    using settled by (simp add: roomCorrections_def filter_empty_conv)
  moreover have "syncRoomOccupancy today' workers ?once ?once = ?once"
    unfolding sync_map[OF ids']
    by (rule map_idI) (simp add: corrected_def settled)
  ultimately show ?thesis by simp
qed

theorem reconcile_idempotent_witness:
  "distinct (map room_id demo_rooms) \<and>
   map fst (roomCorrections 9 demo_workers demo_rooms) = [''r1''] \<and>
   roomCorrections 10 demo_workers (syncRoomOccupancy 9 demo_workers demo_rooms demo_rooms) = []"
proof -
  have ids: "distinct (map room_id demo_rooms)" by (simp add: occupancy_defs)
  have "map fst (roomCorrections 9 demo_workers demo_rooms) = [''r1'']"
    by (simp add: occupancy_defs)
  then show ?thesis using reconcile_idempotent [OF ids, of 10 demo_workers 9] ids by simp
qed

text \<open>
  C7 says that a room's rate is \<open>round(min(count, capacity) / capacity * 100)\<close>. The
  rate of a room, \<open>utilizationRate\<close>, is not rounded: one worker in a room for three
  gives \<open>100 / 3\<close>, and the rounded value would be 33.
\<close>

theorem room_rate_counterexample:
  "map stat_workersCount (roomStats ''F1'' [worker_in ''w5'' ''F1'' homme ''301''] [room_301]) = [1]
   \<and> map stat_utilizationRate
        (roomStats ''F1'' [worker_in ''w5'' ''F1'' homme ''301''] [room_301]) = [100 / 3]
   \<and> Math_round (of_int (min 1 (room_capaciteTotale room_301))
                   / of_int (room_capaciteTotale room_301) * 100) = 33"
  by (simp add: stats_defs worker_in_def room_301_def Math_round_third)

text \<open>
  C7, amended. For every room of the farm, \<open>capacityUsed\<close> is
  \<open>min(count, capacity)\<close>, where \<open>count\<close> is the number of the farm's active workers
  with the room's number as \<open>chambre\<close> and the room's gender; it is the capacity when
  the room holds more workers than that. The room's \<open>utilizationRate\<close> is
  \<open>min(count, capacity) / capacity * 100\<close>, not rounded, 0 when the capacity is 0, and
  at most 100. The farm's \<open>totalOccupied\<close> is the sum of the rooms'
  \<open>capacityUsed\<close>, so at most the total capacity, and the farm's rate
  \<open>tauxOccupation\<close> is \<open>totalOccupied / totalCapacity * 100\<close> rounded to a nearest
  integer, 0 when the total capacity is 0, and at most 100.
\<close>

theorem occupancy_rates:
  "list_all
     (\<lambda>stat.
        stat_workersCount stat
          = int (length (filter (\<lambda>w. worker_chambre w \<noteq> []
                                 \<and> worker_chambre w = room_numero (stat_room stat)
                                 \<and> workerGender w = genreText (room_genre (stat_room stat)))
                          (fermeWorkers fermeId workers)))
        \<and> stat_capacityUsed stat
            = min (stat_workersCount stat) (room_capaciteTotale (stat_room stat))
        \<and> (room_capaciteTotale (stat_room stat) < stat_workersCount stat
             \<longrightarrow> stat_capacityUsed stat = room_capaciteTotale (stat_room stat))
        \<and> stat_utilizationRate stat
            = (if room_capaciteTotale (stat_room stat) > 0
               then of_int (min (stat_workersCount stat) (room_capaciteTotale (stat_room stat)))
                    / of_int (room_capaciteTotale (stat_room stat)) * 100
               else 0)
        \<and> (room_capaciteTotale (stat_room stat) = 0 \<longrightarrow> stat_utilizationRate stat = 0)
        \<and> stat_utilizationRate stat \<le> 100)
     (roomStats fermeId workers rooms)
   \<and> totalOccupied fermeId workers rooms
       = sum_list (map stat_capacityUsed (roomStats fermeId workers rooms))
   \<and> totalOccupied fermeId workers rooms \<le> totalCapacity fermeId rooms
   \<and> \<bar>rat_of_int (tauxOccupation fermeId workers rooms)
        - (if totalCapacity fermeId rooms > 0
           then of_int (totalOccupied fermeId workers rooms)
                / of_int (totalCapacity fermeId rooms) * 100
           else 0)\<bar> \<le> 1 / 2
   \<and> (totalCapacity fermeId rooms = 0 \<longrightarrow> tauxOccupation fermeId workers rooms = 0)
   \<and> tauxOccupation fermeId workers rooms \<le> 100"
proof -
  have per_room: "list_all
     (\<lambda>stat.
        stat_workersCount stat
          = int (length (filter (\<lambda>w. worker_chambre w \<noteq> []
                                 \<and> worker_chambre w = room_numero (stat_room stat)
                                 \<and> workerGender w = genreText (room_genre (stat_room stat)))
                          (fermeWorkers fermeId workers)))
        \<and> stat_capacityUsed stat
            = min (stat_workersCount stat) (room_capaciteTotale (stat_room stat))
        \<and> (room_capaciteTotale (stat_room stat) < stat_workersCount stat
             \<longrightarrow> stat_capacityUsed stat = room_capaciteTotale (stat_room stat))
        \<and> stat_utilizationRate stat
            = (if room_capaciteTotale (stat_room stat) > 0
               then of_int (min (stat_workersCount stat) (room_capaciteTotale (stat_room stat)))
                    / of_int (room_capaciteTotale (stat_room stat)) * 100
               else 0)
        \<and> (room_capaciteTotale (stat_room stat) = 0 \<longrightarrow> stat_utilizationRate stat = 0)
        \<and> stat_utilizationRate stat \<le> 100)
     (roomStats fermeId workers rooms)"
    unfolding list_all_iff roomStats_def
  proof (rule ballI)
    fix stat
    assume "stat \<in> set (map (roomStat (countByRoom (fermeWorkers fermeId workers)))
                          (fermeRooms fermeId rooms))"
    then obtain room where stat: "stat = roomStat (countByRoom (fermeWorkers fermeId workers)) room"
      by auto
    have over: "room_capaciteTotale room < stat_workersCount stat
                 \<longrightarrow> stat_capacityUsed stat = room_capaciteTotale room"
      unfolding stat by (simp add: roomStat_fields)
    have zero: "room_capaciteTotale room = 0 \<longrightarrow> stat_utilizationRate stat = 0"
      unfolding stat by (simp add: roomStat_fields)
    show "stat_workersCount stat
          = int (length (filter (\<lambda>w. worker_chambre w \<noteq> []
                                 \<and> worker_chambre w = room_numero (stat_room stat)
                                 \<and> workerGender w = genreText (room_genre (stat_room stat)))
                          (fermeWorkers fermeId workers)))
        \<and> stat_capacityUsed stat
            = min (stat_workersCount stat) (room_capaciteTotale (stat_room stat))
        \<and> (room_capaciteTotale (stat_room stat) < stat_workersCount stat
             \<longrightarrow> stat_capacityUsed stat = room_capaciteTotale (stat_room stat))
        \<and> stat_utilizationRate stat
            = (if room_capaciteTotale (stat_room stat) > 0
               then of_int (min (stat_workersCount stat) (room_capaciteTotale (stat_room stat)))
                    / of_int (room_capaciteTotale (stat_room stat)) * 100
               else 0)
        \<and> (room_capaciteTotale (stat_room stat) = 0 \<longrightarrow> stat_utilizationRate stat = 0)
        \<and> stat_utilizationRate stat \<le> 100"
      using over zero unfolding stat roomStat_fields(1)
      by (intro conjI workersCount_roomStat roomStat_fields(2) roomStat_fields(3)
            utilizationRate_le)
  qed
  have tot: "totalOccupied fermeId workers rooms
       = sum_list (map stat_capacityUsed (roomStats fermeId workers rooms))"
    by (simp add: totalOccupied_def fold_plus)
  have taux: "\<bar>rat_of_int (tauxOccupation fermeId workers rooms)
        - (if totalCapacity fermeId rooms > 0
           then of_int (totalOccupied fermeId workers rooms)
                / of_int (totalCapacity fermeId rooms) * 100
           else 0)\<bar> \<le> 1 / 2"
    using Math_round_nearest[of "averageUtilization fermeId workers rooms"]
    by (simp only: tauxOccupation_def averageUtilization_def)
  have zero: "totalCapacity fermeId rooms = 0 \<longrightarrow> tauxOccupation fermeId workers rooms = 0"
    by (simp add: tauxOccupation_def averageUtilization_def Math_round_0)
  have le: "totalOccupied fermeId workers rooms \<le> totalCapacity fermeId rooms"
    by (rule totalOccupied_le)
  have le100: "tauxOccupation fermeId workers rooms \<le> 100"
    unfolding tauxOccupation_def by (rule Math_round_le) (rule averageUtilization_le)
  show ?thesis
    by (rule conjI[OF per_room conjI[OF tot conjI[OF le conjI[OF taux conjI[OF zero le100]]]]])
qed

theorem occupancy_rates_witness:
  "map stat_workersCount
     (roomStats ''F1'' [worker_in ''w6'' ''F1'' homme ''401'', worker_in ''w7'' ''F1'' homme ''401'']
        [room_401, room_301]) = [2, 0]
   \<and> map stat_capacityUsed
     (roomStats ''F1'' [worker_in ''w6'' ''F1'' homme ''401'', worker_in ''w7'' ''F1'' homme ''401'']
        [room_401, room_301]) = [1, 0]
   \<and> map stat_utilizationRate
     (roomStats ''F1'' [worker_in ''w6'' ''F1'' homme ''401'', worker_in ''w7'' ''F1'' homme ''401'']
        [room_401, room_301]) = [100, 0]
   \<and> totalOccupied ''F1'' [worker_in ''w6'' ''F1'' homme ''401'', worker_in ''w7'' ''F1'' homme ''401'']
        [room_401, room_301] = 1
   \<and> tauxOccupation ''F1'' [worker_in ''w6'' ''F1'' homme ''401'', worker_in ''w7'' ''F1'' homme ''401'']
        [room_401, room_301] = 25"
  using occupancy_rates [of "''F1''"
          "[worker_in ''w6'' ''F1'' homme ''401'', worker_in ''w7'' ''F1'' homme ''401'']"
          "[room_401, room_301]"]
  by (simp add: stats_defs worker_in_def room_301_def room_401_def Math_round_25)

text \<open>
  C9. Applying a correction of \<open>syncRoomOccupancy\<close> to the collection (room ids
  unique) changes, in the room it addresses, \<open>occupantsActuels\<close>,
  \<open>listeOccupants\<close> and \<open>updatedAt\<close> and nothing else, and leaves every other room
  as it was. After the whole loop every room
  has its \<open>id\<close>, \<open>numero\<close>, \<open>fermeId\<close>, \<open>genre\<close> and \<open>capaciteTotale\<close>
  as before, and a room that received no correction is unchanged.
\<close>

theorem correction_writes_three_fields:
  assumes ids: "distinct (map room_id rooms)" and k: "k < length rooms"
  shows "length (syncRoomOccupancy today workers rooms rooms) = length rooms
       \<and> room_id (syncRoomOccupancy today workers rooms rooms ! k) = room_id (rooms ! k)
       \<and> room_numero (syncRoomOccupancy today workers rooms rooms ! k) = room_numero (rooms ! k)
       \<and> room_fermeId (syncRoomOccupancy today workers rooms rooms ! k) = room_fermeId (rooms ! k)
       \<and> room_genre (syncRoomOccupancy today workers rooms rooms ! k) = room_genre (rooms ! k)
       \<and> room_capaciteTotale (syncRoomOccupancy today workers rooms rooms ! k)
           = room_capaciteTotale (rooms ! k)
       \<and> (room_id (rooms ! k) \<notin> fst ` set (roomCorrections today workers rooms)
            \<longrightarrow> syncRoomOccupancy today workers rooms rooms ! k = rooms ! k)
       \<and> ((docId, partialData) \<in> set (roomCorrections today workers rooms)
            \<longrightarrow> updateRoom docId partialData rooms ! k
                  = (if room_id (rooms ! k) = docId
                     then (rooms ! k)\<lparr>room_occupantsActuels := upd_occupantsActuels partialData,
                                      room_listeOccupants := upd_listeOccupants partialData,
                                      room_updatedAt := Some (upd_updatedAt partialData)\<rparr>
                     else rooms ! k))
       \<and> ((docId, partialData) \<in> set (roomCorrections today workers rooms)
            \<and> room_id (rooms ! k) = docId
            \<longrightarrow> list_all (\<lambda>j. j = k \<or> updateRoom docId partialData rooms ! j = rooms ! j)
                  [0..<length rooms])"
proof -
  have mem: "rooms ! k \<in> set rooms" using k by simp
  have others: "updateRoom (room_id (rooms ! k)) partialData rooms ! j = rooms ! j"
    if "j < length rooms" "j \<noteq> k" for j
  proof -
    have "map room_id rooms ! j \<noteq> map room_id rooms ! k"
      using ids that k by (simp add: nth_eq_iff_index_eq del: nth_map)
    then show ?thesis using that k by (simp add: updateRoom_def)
  qed
  have alone: "room_id (rooms ! k) = docId
            \<longrightarrow> list_all (\<lambda>j. j = k \<or> updateRoom docId partialData rooms ! j = rooms ! j)
                  [0..<length rooms]"
    using others by (fastforce simp: list_all_iff)
  have "length (syncRoomOccupancy today workers rooms rooms) = length rooms"
    by (simp add: sync_map[OF ids])
  moreover have "room_id (rooms ! k) \<notin> fst ` set (roomCorrections today workers rooms)
            \<longrightarrow> syncRoomOccupancy today workers rooms rooms ! k = rooms ! k"
    unfolding emitted_iff[OF ids mem] sync_nth[OF ids k] by (simp add: corrected_def)
  moreover have "updateRoom docId partialData rooms ! k
                  = (if room_id (rooms ! k) = docId
                     then (rooms ! k)\<lparr>room_occupantsActuels := upd_occupantsActuels partialData,
                                      room_listeOccupants := upd_listeOccupants partialData,
                                      room_updatedAt := Some (upd_updatedAt partialData)\<rparr>
                     else rooms ! k)"
    using k by (simp add: updateRoom_def)
  ultimately show ?thesis
    using alone by (simp add: sync_nth[OF ids k] corrected_def)
qed

theorem correction_writes_three_fields_witness:
  "distinct (map room_id demo_rooms) \<and> (1::nat) < length demo_rooms \<and>
   room_id (demo_rooms ! 1) \<notin> fst ` set (roomCorrections 9 demo_workers demo_rooms) \<and>
   syncRoomOccupancy 9 demo_workers demo_rooms demo_rooms ! 1 = room_201 \<and>
   (''r1'', correctionOf 9 demo_workers room_101) \<in> set (roomCorrections 9 demo_workers demo_rooms) \<and>
   updateRoom ''r1'' (correctionOf 9 demo_workers room_101) demo_rooms ! 1 = room_201"
proof -
  have ids: "distinct (map room_id demo_rooms)" by (simp add: occupancy_defs)
  have k: "(1::nat) < length demo_rooms" by (simp add: occupancy_defs)
  have n: "room_id (demo_rooms ! 1) \<notin> fst ` set (roomCorrections 9 demo_workers demo_rooms)"
    by (simp add: occupancy_defs)
  have c: "(''r1'', correctionOf 9 demo_workers room_101)
             \<in> set (roomCorrections 9 demo_workers demo_rooms)"
    by (simp add: occupancy_defs)
  have e: "demo_rooms ! 1 = room_201" "room_id room_201 \<noteq> ''r1''"
    by (simp_all add: demo_rooms_def room_201_def)
  show ?thesis
    using correction_writes_three_fields
            [OF ids k, of 9 demo_workers "''r1''" "correctionOf 9 demo_workers room_101"]
          ids k n c e
    by simp
qed

end
